theory Spec2Isabelle
  imports Complex_Main "HOL-Library.AList"
begin

section \<open>Data of the storefront\<close>

text \<open>
  The failure codes that \<^verbatim>\<open>src/lib/ecom/api.ts\<close> uses. The enum itself is declared in
  \<^verbatim>\<open>./types\<close>; its members are taken to be pairwise different, as the members of a
  TypeScript enum are.
\<close>

datatype EcomApiErrorCodes =
    GetProductsFailure
  | ProductNotFound
  | GetProductFailure
  | GetCartFailure
  | GetCartTotalsFailure
  | UpdateCartItemQuantityFailure
  | RemoveCartItemFailure
  | AddCartItemFailure
  | CreateCheckoutFailure
  | CreateCheckoutRedirectSessionFailure
  | GetAllCategoriesFailure
  | CategoryNotFound
  | GetCategoryFailure
  | OrderNotFound
  | GetOrderFailure

datatype EcomAPIError = EcomAPIError (error_code: EcomApiErrorCodes) (error_message: string)

text \<open>
  The tagged result of a Gateway operation: \<^verbatim>\<open>{status: 'success', body}\<close> or
  \<^verbatim>\<open>{status: 'failure', error: {code, message}}\<close>.
\<close>

datatype 'a EcomAPIResponse = Success 'a | Failure EcomAPIError

definition failureResponse :: "EcomApiErrorCodes \<Rightarrow> string \<Rightarrow> 'a EcomAPIResponse" where
  "failureResponse c m = Failure (EcomAPIError c m)"

definition successResponse :: "'a \<Rightarrow> 'a EcomAPIResponse" where
  "successResponse b = Success b"

text \<open>
  What a JavaScript \<^verbatim>\<open>throw\<close> can carry here: an \<^verbatim>\<open>Error\<close> with its message, an error of
  the platform SDK with its application error code and message, or the
  \<^verbatim>\<open>{code, message}\<close> object of a failure response thrown again.
\<close>

datatype js_exn =
    Error string
  | EcomSDKError int string
  | ThrownError EcomAPIError

text \<open>
  The type guard \<^verbatim>\<open>isEcomSDKError\<close> together with the test
  \<^verbatim>\<open>e.details.applicationError.code === 404\<close>.
\<close>

fun isEcomSDKError404 :: "js_exn \<Rightarrow> bool" where
  "isEcomSDKError404 (EcomSDKError c m) = (c = 404)"
| "isEcomSDKError404 _ = False"

record Choice =
  choice_value :: "string option"
  choice_description :: "string option"

record ProductOption =
  option_name :: "string option"
  choices :: "Choice list option"

record PriceData =
  price :: "rat option"

record Variant =
  variant_id :: "string option"

record Product =
  product_id :: "string option"
  product_slug :: "string option"
  manageVariants :: "bool option"
  productOptions :: "ProductOption list option"
  priceData :: "PriceData option"
  collectionIds :: "string list"

record Collection =
  collection_id :: "string option"
  collection_slug :: "string option"

datatype AddToCartOptions = VariantId string | Options "(string \<times> string) list"

record CatalogReference =
  catalogItemId :: "string option"
  appId :: string
  reference_options :: "AddToCartOptions option"

record LineItem =
  lineitem_id :: "string option"
  lineitem_quantity :: "int option"
  catalogReference :: "CatalogReference option"

record Cart =
  lineItems :: "LineItem list"

record LineItemInput =
  input_catalogReference :: CatalogReference
  input_quantity :: int

record CartTotals =
  subtotal :: rat

record Order =
  order_id :: "string option"

datatype ChannelType = WEB

record RedirectRequest =
  ecomCheckout_checkoutId :: "string option"
  postFlowUrl :: string
  thankYouPageUrl :: string

record RedirectSession =
  fullUrl :: "string option"

subsection \<open>Product queries\<close>

text \<open>
  The query builder of the platform is immutable: every builder method returns a new
  query. A query is the list of the builder calls made so far.
\<close>

datatype QueryOp =
    HasSome string "string option list"
  | Eq string string
  | Ge string rat
  | Le string rat
  | Ascending string
  | Descending string
  | Skip nat
  | Limit nat

type_synonym ProductsQuery = "QueryOp list"

definition queryProducts :: ProductsQuery where
  "queryProducts = []"

definition hasSome :: "string \<Rightarrow> string option list \<Rightarrow> ProductsQuery \<Rightarrow> ProductsQuery" where
  "hasSome f vs q = q @ [HasSome f vs]"

definition eq :: "string \<Rightarrow> string \<Rightarrow> ProductsQuery \<Rightarrow> ProductsQuery" where
  "eq f v q = q @ [Eq f v]"

definition ascending :: "string \<Rightarrow> ProductsQuery \<Rightarrow> ProductsQuery" where
  "ascending f q = q @ [Ascending f]"

definition descending :: "string \<Rightarrow> ProductsQuery \<Rightarrow> ProductsQuery" where
  "descending f q = q @ [Descending f]"

definition skip :: "nat \<Rightarrow> ProductsQuery \<Rightarrow> ProductsQuery" where
  "skip n q = q @ [Skip n]"

definition limit :: "nat \<Rightarrow> ProductsQuery \<Rightarrow> ProductsQuery" where
  "limit n q = q @ [Limit n]"

record ProductsQueryResult =
  items :: "Product list"
  totalCount :: "nat option"

section \<open>The remote platform\<close>

text \<open>
  The platform is outside the repository. Each of its calls is a function of the
  platform's state \<open>'w\<close> that returns the new state and either the value the promise
  resolves to or the exception it rejects with.
\<close>

record 'w WixApiClient =
  products_find :: "ProductsQuery \<Rightarrow> 'w \<Rightarrow> (js_exn + ProductsQueryResult) \<times> 'w"
  collections_getCollectionBySlug :: "string option \<Rightarrow> 'w \<Rightarrow> (js_exn + Collection option) \<times> 'w"
  collections_find :: "'w \<Rightarrow> (js_exn + Collection list) \<times> 'w"
  currentCart_getCurrentCart :: "'w \<Rightarrow> (js_exn + Cart) \<times> 'w"
  currentCart_estimateCurrentCartTotals :: "'w \<Rightarrow> (js_exn + CartTotals) \<times> 'w"
  currentCart_updateCurrentCartLineItemQuantity ::
    "(string option \<times> int) list \<Rightarrow> 'w \<Rightarrow> (js_exn + Cart option) \<times> 'w"
  currentCart_removeLineItemsFromCurrentCart ::
    "string list \<Rightarrow> 'w \<Rightarrow> (js_exn + Cart option) \<times> 'w"
  currentCart_addToCurrentCart :: "LineItemInput list \<Rightarrow> 'w \<Rightarrow> (js_exn + Cart option) \<times> 'w"
  currentCart_createCheckoutFromCurrentCart ::
    "ChannelType \<Rightarrow> 'w \<Rightarrow> (js_exn + string option) \<times> 'w"
  redirects_createRedirectSession ::
    "RedirectRequest \<Rightarrow> 'w \<Rightarrow> (js_exn + RedirectSession option) \<times> 'w"
  orders_getOrder :: "string \<Rightarrow> 'w \<Rightarrow> (js_exn + Order option) \<times> 'w"

text \<open>The calls made to the platform are recorded, in the order they are issued.\<close>

datatype PlatformCall =
    ProductsFind ProductsQuery
  | GetCollectionBySlug "string option"
  | CollectionsFind
  | GetCurrentCart
  | EstimateCurrentCartTotals
  | UpdateCurrentCartLineItemQuantity "(string option \<times> int) list"
  | RemoveLineItemsFromCurrentCart "string list"
  | AddToCurrentCart "LineItemInput list"
  | CreateCheckoutFromCurrentCart ChannelType
  | CreateRedirectSession RedirectRequest
  | GetOrder string

record 'w net =
  platform :: 'w
  calls :: "PlatformCall list"

text \<open>
  An asynchronous computation: it runs on the state of the network and either resolves
  (\<open>Inr\<close>) or rejects (\<open>Inl\<close>, the value thrown).
\<close>

type_synonym ('w, 'a) async = "'w net \<Rightarrow> (js_exn + 'a) \<times> 'w net"

definition resolve :: "'a \<Rightarrow> ('w, 'a) async" where
  "resolve x = (\<lambda>s. (Inr x, s))"

definition throw :: "js_exn \<Rightarrow> ('w, 'a) async" where
  "throw e = (\<lambda>s. (Inl e, s))"

definition await :: "('w, 'a) async \<Rightarrow> ('a \<Rightarrow> ('w, 'b) async) \<Rightarrow> ('w, 'b) async" where
  "await m f = (\<lambda>s. case m s of (Inl e, s') \<Rightarrow> (Inl e, s') | (Inr x, s') \<Rightarrow> f x s')"

definition try_catch :: "('w, 'a) async \<Rightarrow> (js_exn \<Rightarrow> ('w, 'a) async) \<Rightarrow> ('w, 'a) async" where
  "try_catch m h = (\<lambda>s. case m s of (Inl e, s') \<Rightarrow> h e s' | (Inr x, s') \<Rightarrow> (Inr x, s'))"

definition invoke :: "PlatformCall \<Rightarrow> ('w \<Rightarrow> (js_exn + 'a) \<times> 'w) \<Rightarrow> ('w, 'a) async" where
  "invoke c f = (\<lambda>s. case f (platform s) of
     (r, w') \<Rightarrow> (r, \<lparr>platform = w', calls = calls s @ [c]\<rparr>))"

text \<open>A synchronous helper that either returns or throws.\<close>

definition sync :: "js_exn + 'a \<Rightarrow> ('w, 'a) async" where
  "sync r = (\<lambda>s. (r, s))"

text \<open>
  \<^verbatim>\<open>Promise.all([p, q])\<close>: both calls are issued, \<open>p\<close> first. The result rejects as soon
  as one of them rejects; when both reject, \<open>second_first\<close> says that the second one
  settled first.
\<close>

definition promise_all2 ::
  "bool \<Rightarrow> ('w, 'a) async \<Rightarrow> ('w, 'b) async \<Rightarrow> ('w, 'a \<times> 'b) async" where
  "promise_all2 second_first p q = (\<lambda>s.
     case p s of (r1, s1) \<Rightarrow>
     case q s1 of (r2, s2) \<Rightarrow>
       (case (r1, r2) of
          (Inr a, Inr b) \<Rightarrow> Inr (a, b)
        | (Inl e1, Inr b) \<Rightarrow> Inl e1
        | (Inr a, Inl e2) \<Rightarrow> Inl e2
        | (Inl e1, Inl e2) \<Rightarrow> Inl (if second_first then e2 else e1), s2))"

text \<open>
  What \<^verbatim>\<open>api.ts\<close> imports from files that are not among the sources: the helper
  \<^verbatim>\<open>getErrorMessage\<close>, the two query helpers (each may throw), the application id, and
  \<^verbatim>\<open>window.location.origin\<close> (\<open>None\<close> where there is no \<^verbatim>\<open>window\<close>). \<open>promise_race\<close>
  is the scheduling choice of \<open>promise_all2\<close>.

  \<open>number_plus\<close> is JavaScript's \<^verbatim>\<open>+\<close> on two numbers that hold integers. JavaScript
  numbers are doubles: the sum is the integer sum as long as the operands and the sum are
  safe integers and is rounded beyond them. Nothing but that is used of it, and the
  theorems that need it say so in a hypothesis.
\<close>

definition safe_integer :: "int \<Rightarrow> bool" where
  "safe_integer n = (- (2 ^ 53 - 1) \<le> n \<and> n \<le> 2 ^ 53 - 1)"

record ('f, 'o) lib =
  getErrorMessage :: "js_exn \<Rightarrow> string"
  getFilteredProductsQuery :: "ProductsQuery \<Rightarrow> 'f \<Rightarrow> js_exn + ProductsQuery"
  getSortedProductsQuery :: "ProductsQuery \<Rightarrow> 'o \<Rightarrow> js_exn + ProductsQuery"
  WIX_STORES_APP_ID :: string
  window_location_origin :: "string option"
  promise_race :: bool
  number_plus :: "int \<Rightarrow> int \<Rightarrow> int"

section \<open>The Gateway: \<^verbatim>\<open>createApi\<close> of \<^verbatim>\<open>src/lib/ecom/api.ts\<close>\<close>


text \<open>
  The options of \<^verbatim>\<open>getProductsByCategory\<close>: \<^verbatim>\<open>skip\<close> and \<^verbatim>\<open>limit\<close> default to 0 and 100,
  \<^verbatim>\<open>filters\<close> and \<^verbatim>\<open>sortBy\<close> are used when they are given. The slug is declared a
  string; it is an option here because \<^verbatim>\<open>getFeaturedProducts\<close> hands over
  \<^verbatim>\<open>category.slug!\<close>, which is \<^verbatim>\<open>undefined\<close> for a category without a slug.
\<close>

record ('f, 'o) category_options =
  opt_skip :: "nat option"
  opt_limit :: "nat option"
  opt_filters :: "'f option"
  opt_sortBy :: "'o option"

definition getProductsByCategory ::
  "('f, 'o) lib \<Rightarrow> 'w WixApiClient \<Rightarrow> string option \<Rightarrow> ('f, 'o) category_options \<Rightarrow>
   ('w, (Product list \<times> nat) EcomAPIResponse) async" where
  "getProductsByCategory L wixClient categorySlug opts =
     try_catch
       (await (invoke (GetCollectionBySlug categorySlug)
                 (collections_getCollectionBySlug wixClient categorySlug))
          (\<lambda>collection. case collection of
             None \<Rightarrow> throw (Error ''Category not found'')
           | Some category \<Rightarrow>
               await (sync (let query = hasSome ''collectionIds'' [collection_id category] queryProducts
                            in case opt_filters opts of
                                 None \<Rightarrow> Inr query
                               | Some filters \<Rightarrow> getFilteredProductsQuery L query filters))
                 (\<lambda>query. await (sync (case opt_sortBy opts of
                                          None \<Rightarrow> Inr query
                                        | Some sortBy \<Rightarrow> getSortedProductsQuery L query sortBy))
                   (\<lambda>query. let q = limit (case opt_limit opts of None \<Rightarrow> 100 | Some n \<Rightarrow> n)
                                     (skip (case opt_skip opts of None \<Rightarrow> 0 | Some n \<Rightarrow> n) query)
                             in await (invoke (ProductsFind q) (products_find wixClient q))
                                  (\<lambda>r. resolve (successResponse
                                     (items r, case totalCount r of None \<Rightarrow> 0 | Some n \<Rightarrow> n)))))))
       (\<lambda>e. resolve (failureResponse GetProductsFailure (getErrorMessage L e)))"

definition getCategoryBySlug ::
  "('f, 'o) lib \<Rightarrow> 'w WixApiClient \<Rightarrow> string \<Rightarrow> ('w, Collection EcomAPIResponse) async" where
  "getCategoryBySlug L wixClient slug =
     try_catch
       (await (invoke (GetCollectionBySlug (Some slug))
                 (collections_getCollectionBySlug wixClient (Some slug)))
          (\<lambda>collection. case collection of
             None \<Rightarrow> resolve (failureResponse CategoryNotFound ''Category not found'')
           | Some category \<Rightarrow> resolve (successResponse category)))
       (\<lambda>e. if isEcomSDKError404 e
             then resolve (failureResponse CategoryNotFound ''Category not found'')
             else resolve (failureResponse GetCategoryFailure (getErrorMessage L e)))"

text \<open>
  \<^verbatim>\<open>getFeaturedProducts\<close> has no \<^verbatim>\<open>try\<close>: each \<^verbatim>\<open>throw\<close> in it rejects the promise it
  returns. \<^verbatim>\<open>this.getCategoryBySlug\<close> and \<^verbatim>\<open>this.getProductsByCategory\<close> are the
  operations of the same object.
\<close>

definition getFeaturedProducts ::
  "('f, 'o) lib \<Rightarrow> 'w WixApiClient \<Rightarrow> string \<Rightarrow> nat \<Rightarrow>
   ('w, (Collection \<times> Product list) EcomAPIResponse) async" where
  "getFeaturedProducts L wixClient categorySlug count =
     await (await (getCategoryBySlug L wixClient categorySlug)
              (\<lambda>response. case response of
                 Success b \<Rightarrow> resolve b
               | Failure error \<Rightarrow>
                   if error_code error = CategoryNotFound
                   then await (getCategoryBySlug L wixClient ''all-products'')
                          (\<lambda>response. case response of
                             Success b \<Rightarrow> resolve b
                           | Failure _ \<Rightarrow> throw (ThrownError error))
                   else throw (ThrownError error)))
       (\<lambda>category.
          await (getProductsByCategory L wixClient (collection_slug category)
                   \<lparr>opt_skip = None, opt_limit = Some count, opt_filters = None, opt_sortBy = None\<rparr>)
            (\<lambda>productsResponse. case productsResponse of
               Failure error \<Rightarrow> throw (ThrownError error)
             | Success b \<Rightarrow> resolve (successResponse (category, fst b))))"





text \<open>\<^verbatim>\<open>id || undefined\<close>: a missing or empty id is sent as \<^verbatim>\<open>undefined\<close>.\<close>

definition id_or_undefined :: "string option \<Rightarrow> string option" where
  "id_or_undefined i = (case i of None \<Rightarrow> None | Some s \<Rightarrow> if s = [] then None else Some s)"

definition updateCartItemQuantity ::
  "('f, 'o) lib \<Rightarrow> 'w WixApiClient \<Rightarrow> string option \<Rightarrow> int \<Rightarrow> ('w, Cart EcomAPIResponse) async" where
  "updateCartItemQuantity L wixClient i quantity =
     try_catch
       (await (let arg = [(id_or_undefined i, quantity)]
               in invoke (UpdateCurrentCartLineItemQuantity arg)
                    (currentCart_updateCurrentCartLineItemQuantity wixClient arg))
          (\<lambda>result. case result of
             None \<Rightarrow> throw (Error ''Failed to update cart item quantity'')
           | Some cart \<Rightarrow> resolve (successResponse cart)))
       (\<lambda>e. resolve (failureResponse UpdateCartItemQuantityFailure (getErrorMessage L e)))"

definition removeItemFromCart ::
  "('f, 'o) lib \<Rightarrow> 'w WixApiClient \<Rightarrow> string \<Rightarrow> ('w, Cart EcomAPIResponse) async" where
  "removeItemFromCart L wixClient i =
     try_catch
       (await (invoke (RemoveLineItemsFromCurrentCart [i])
                 (currentCart_removeLineItemsFromCurrentCart wixClient [i]))
          (\<lambda>result. case result of
             None \<Rightarrow> throw (Error ''Failed to remove cart item'')
           | Some cart \<Rightarrow> resolve (successResponse cart)))
       (\<lambda>e. resolve (failureResponse RemoveCartItemFailure (getErrorMessage L e)))"

text \<open>
  The id of \<^verbatim>\<open>addToCart\<close> is declared a string; it is an option here because the
  product page hands over \<^verbatim>\<open>product._id!\<close>, which is \<^verbatim>\<open>undefined\<close> for a product without
  an id.
\<close>

definition addToCart ::
  "('f, 'o) lib \<Rightarrow> 'w WixApiClient \<Rightarrow> string option \<Rightarrow> int \<Rightarrow> AddToCartOptions option \<Rightarrow>
   ('w, Cart EcomAPIResponse) async" where
  "addToCart L wixClient i quantity options =
     try_catch
       (await (let arg = [\<lparr>input_catalogReference =
                             \<lparr>catalogItemId = i, appId = WIX_STORES_APP_ID L,
                              reference_options = options\<rparr>,
                           input_quantity = quantity\<rparr>]
               in invoke (AddToCurrentCart arg) (currentCart_addToCurrentCart wixClient arg))
          (\<lambda>result. case result of
             None \<Rightarrow> throw (Error ''Failed to add item to cart'')
           | Some cart \<Rightarrow> resolve (successResponse cart)))
       (\<lambda>e. resolve (failureResponse AddCartItemFailure (getErrorMessage L e)))"

text \<open>
  \<^verbatim>\<open>redirectSession?.fullUrl\<close> is missing when the session or its url is missing;
  \<^verbatim>\<open>!redirectSession?.fullUrl\<close> holds then and when the url is the empty string. Reading \<^verbatim>\<open>window.location.origin\<close> where there is no
  \<^verbatim>\<open>window\<close> throws inside the second \<^verbatim>\<open>try\<close>, before the platform is called.
\<close>

definition session_fullUrl :: "RedirectSession option \<Rightarrow> string option" where
  "session_fullUrl redirectSession = (case redirectSession of None \<Rightarrow> None | Some r \<Rightarrow> fullUrl r)"

definition checkout :: "('f, 'o) lib \<Rightarrow> 'w WixApiClient \<Rightarrow> ('w, string EcomAPIResponse) async" where
  "checkout L wixClient = (\<lambda>s.
     case invoke (CreateCheckoutFromCurrentCart WEB)
            (currentCart_createCheckoutFromCurrentCart wixClient WEB) s of
       (Inl e, s1) \<Rightarrow> (Inr (failureResponse CreateCheckoutFailure (getErrorMessage L e)), s1)
     | (Inr checkoutId, s1) \<Rightarrow>
         try_catch
           (case window_location_origin L of
              None \<Rightarrow> throw (Error ''window is not defined'')
            | Some origin \<Rightarrow>
                await (let arg = \<lparr>ecomCheckout_checkoutId = checkoutId, postFlowUrl = origin,
                                  thankYouPageUrl = origin @ ''/thank-you''\<rparr>
                       in invoke (CreateRedirectSession arg)
                            (redirects_createRedirectSession wixClient arg))
                  (\<lambda>redirectSession. case session_fullUrl redirectSession of
                     None \<Rightarrow> throw (Error ''Missing redirect session url'')
                   | Some url \<Rightarrow>
                       if url = [] then throw (Error ''Missing redirect session url'')
                       else resolve (successResponse url)))
           (\<lambda>e. resolve (failureResponse CreateCheckoutRedirectSessionFailure
                            (getErrorMessage L e)))
           s1)"



text \<open>\<^verbatim>\<open>items[0]?.priceData?.price ?? 0\<close>\<close>

definition first_price_or_0 :: "ProductsQueryResult \<Rightarrow> rat" where
  "first_price_or_0 r = (case items r of
     [] \<Rightarrow> 0
   | p # _ \<Rightarrow> (case priceData p of
                 None \<Rightarrow> 0
               | Some d \<Rightarrow> (case price d of None \<Rightarrow> 0 | Some v \<Rightarrow> v)))"

record PriceBounds =
  lowest :: rat
  highest :: rat

definition getProductPriceBounds ::
  "('f, 'o) lib \<Rightarrow> 'w WixApiClient \<Rightarrow> string \<Rightarrow> ('w, PriceBounds EcomAPIResponse) async" where
  "getProductPriceBounds L wixClient categorySlug =
     try_catch
       (await (invoke (GetCollectionBySlug (Some categorySlug))
                 (collections_getCollectionBySlug wixClient (Some categorySlug)))
          (\<lambda>collection. case collection of
             None \<Rightarrow> throw (Error ''Category not found'')
           | Some category \<Rightarrow>
               let query = hasSome ''collectionIds'' [collection_id category] queryProducts;
                   qa = limit 1 (ascending ''price'' query);
                   qd = limit 1 (descending ''price'' query)
               in await (promise_all2 (promise_race L)
                           (invoke (ProductsFind qa) (products_find wixClient qa))
                           (invoke (ProductsFind qd) (products_find wixClient qd)))
                    (\<lambda>(ascendingPrice, descendingPrice).
                       resolve (successResponse
                         \<lparr>lowest = first_price_or_0 ascendingPrice,
                          highest = first_price_or_0 descendingPrice\<rparr>))))
       (\<lambda>e. resolve (failureResponse GetProductsFailure (getErrorMessage L e)))"

section \<open>The cart hooks: \<^verbatim>\<open>src/lib/ecom/hooks.ts\<close>\<close>

text \<open>
  The helpers of \<^verbatim>\<open>~/lib/utils\<close> that the hooks and the product page call. Their file
  is not among the sources, so they are parameters.
\<close>

type_synonym SelectedChoices = "(string \<times> Choice option) list"

record utils =
  findItemIdInCart :: "Cart \<Rightarrow> string option \<Rightarrow> AddToCartOptions option \<Rightarrow> LineItem option"
  getSelectedVariant :: "Product \<Rightarrow> SelectedChoices \<Rightarrow> Variant option"
  selectedChoicesToVariantChoices :: "Product \<Rightarrow> SelectedChoices \<Rightarrow> (string \<times> string) list"

text \<open>
  The state the hooks work on:
  \<^item> the network;
  \<^item> \<open>cartData\<close>, the cache entry \<^verbatim>\<open>'cart'\<close> of the cache library (\<open>None\<close> while nothing is
    loaded);
  \<^item> \<open>renderedCart\<close>, the value that \<^verbatim>\<open>const { data: cart } = useCartData()\<close> had in the
    last render: the fetcher of \<^verbatim>\<open>useAddToCart\<close> closes over it, so a trigger that starts
    before the answer to an earlier one has been rendered still sees the old cart;
  \<^item> the React state \<^verbatim>\<open>updatingCartItemIds\<close>;
  \<^item> \<open>updatingHistory\<close>, which records every value given to \<^verbatim>\<open>updatingCartItemIds\<close>
    together with the platform calls issued up to then;
  \<^item> the rejections of promises that nobody handles.

  \<^verbatim>\<open>useEcomAPI()\<close> is taken to give \<^verbatim>\<open>createApi(wixClient)\<close>, the only Gateway there is.
  Events are run one after the other, each to its end. The effect of \<^verbatim>\<open>useCartTotals\<close>, which
  fetches the totals again when the cart data changes, is not part of the model.
\<close>

record 'w app =
  net :: "'w net"
  cartData :: "Cart option"
  renderedCart :: "Cart option"
  updatingCartItemIds :: "string list"
  updatingHistory :: "(string list \<times> PlatformCall list) list"
  unhandledRejections :: "js_exn list"

text \<open>A render: the component reads the cache again.\<close>

definition render :: "'w app \<Rightarrow> 'w app" where
  "render s = s\<lparr>renderedCart := cartData s\<rparr>"

text \<open>
  \<^verbatim>\<open>useSWRMutation('cart', fetcher, {revalidate: false, populateCache: true})\<close>: the
  trigger runs the fetcher; the value it resolves to is written to the cache entry, a
  rejection leaves the cache as it is and rejects the trigger's promise.
\<close>

definition useSWRMutation ::
  "('w, Cart) async \<Rightarrow> 'w app \<Rightarrow> (js_exn + Cart) \<times> 'w app" where
  "useSWRMutation fetcher s = (case fetcher (net s) of
     (Inr d, n) \<Rightarrow> (Inr d, s\<lparr>net := n, cartData := Some d\<rparr>)
   | (Inl e, n) \<Rightarrow> (Inl e, s\<lparr>net := n\<rparr>))"

text \<open>\<^verbatim>\<open>if (response.status === 'failure') throw response.error; return response.body\<close>\<close>

definition body_or_throw :: "'a EcomAPIResponse \<Rightarrow> ('w, 'a) async" where
  "body_or_throw response = (case response of
     Failure error \<Rightarrow> throw (ThrownError error)
   | Success b \<Rightarrow> resolve b)"

record AddToCartArgs =
  arg_id :: "string option"
  arg_quantity :: int
  arg_options :: "AddToCartOptions option"

text \<open>
  \<^verbatim>\<open>itemInCart.quantity ?? 0\<close>. Quantities are JavaScript numbers that hold whole
  values; they are integers here.
\<close>

definition quantity_or_0 :: "LineItem \<Rightarrow> int" where
  "quantity_or_0 itemInCart = (case lineitem_quantity itemInCart of None \<Rightarrow> 0 | Some q \<Rightarrow> q)"

text \<open>
  The fetcher of \<^verbatim>\<open>useAddToCart\<close>; \<open>cart\<close> is the cached cart of the last render. The
  two quantities are added by JavaScript's \<^verbatim>\<open>+\<close>.
\<close>

definition useAddToCart_fetcher ::
  "utils \<Rightarrow> ('f, 'o) lib \<Rightarrow> 'w WixApiClient \<Rightarrow> Cart option \<Rightarrow> AddToCartArgs \<Rightarrow> ('w, Cart) async" where
  "useAddToCart_fetcher U L wixClient cart arg =
     (case (case cart of
              None \<Rightarrow> None
            | Some c \<Rightarrow> findItemIdInCart U c (arg_id arg) (arg_options arg)) of
        Some itemInCart \<Rightarrow>
          await (updateCartItemQuantity L wixClient (lineitem_id itemInCart)
                   (number_plus L (quantity_or_0 itemInCart) (arg_quantity arg)))
            body_or_throw
      | None \<Rightarrow>
          await (addToCart L wixClient (arg_id arg) (arg_quantity arg) (arg_options arg))
            body_or_throw)"

definition triggerAddToCart ::
  "utils \<Rightarrow> ('f, 'o) lib \<Rightarrow> 'w WixApiClient \<Rightarrow> AddToCartArgs \<Rightarrow> 'w app \<Rightarrow> (js_exn + Cart) \<times> 'w app" where
  "triggerAddToCart U L wixClient arg s =
     useSWRMutation (useAddToCart_fetcher U L wixClient (renderedCart s) arg) s"

definition triggerUpdateItemQuantity ::
  "('f, 'o) lib \<Rightarrow> 'w WixApiClient \<Rightarrow> string \<Rightarrow> int \<Rightarrow> 'w app \<Rightarrow> (js_exn + Cart) \<times> 'w app" where
  "triggerUpdateItemQuantity L wixClient i quantity =
     useSWRMutation (await (updateCartItemQuantity L wixClient (Some i) quantity) body_or_throw)"

definition triggerRemoveItem ::
  "('f, 'o) lib \<Rightarrow> 'w WixApiClient \<Rightarrow> string \<Rightarrow> 'w app \<Rightarrow> (js_exn + Cart) \<times> 'w app" where
  "triggerRemoveItem L wixClient i =
     useSWRMutation (await (removeItemFromCart L wixClient i) body_or_throw)"

subsection \<open>\<^verbatim>\<open>useCart\<close>\<close>

text \<open>
  \<^verbatim>\<open>setUpdatingCartItems((prev) => ...)\<close>; the new value is recorded in the history with
  the calls issued so far.
\<close>

definition setUpdatingCartItems :: "(string list \<Rightarrow> string list) \<Rightarrow> 'w app \<Rightarrow> 'w app" where
  "setUpdatingCartItems f s =
     s\<lparr>updatingCartItemIds := f (updatingCartItemIds s),
       updatingHistory := updatingHistory s @ [(f (updatingCartItemIds s), calls (net s))]\<rparr>"

text \<open>
  The callback of \<^verbatim>\<open>.finally\<close> runs when the trigger's promise settles, resolved or
  rejected. The promise that \<^verbatim>\<open>.finally\<close> returns is dropped, so a rejection stays
  unhandled.
\<close>

definition finally_settled :: "string \<Rightarrow> (js_exn + Cart) \<times> 'w app \<Rightarrow> 'w app" where
  "finally_settled i settled = (case settled of (r, s) \<Rightarrow>
     (let s' = setUpdatingCartItems (\<lambda>prev. filter (\<lambda>itemId. itemId \<noteq> i) prev) s
      in case r of
           Inr _ \<Rightarrow> s'
         | Inl e \<Rightarrow> s'\<lparr>unhandledRejections := unhandledRejections s' @ [e]\<rparr>))"

definition updateItemQuantity ::
  "('f, 'o) lib \<Rightarrow> 'w WixApiClient \<Rightarrow> string \<Rightarrow> int \<Rightarrow> 'w app \<Rightarrow> 'w app" where
  "updateItemQuantity L wixClient i quantity s =
     finally_settled i
       (triggerUpdateItemQuantity L wixClient i quantity
          (setUpdatingCartItems (\<lambda>prev. prev @ [i]) s))"

definition removeItem :: "('f, 'o) lib \<Rightarrow> 'w WixApiClient \<Rightarrow> string \<Rightarrow> 'w app \<Rightarrow> 'w app" where
  "removeItem L wixClient i s =
     finally_settled i
       (triggerRemoveItem L wixClient i (setUpdatingCartItems (\<lambda>prev. prev @ [i]) s))"

definition useCart_addToCart ::
  "utils \<Rightarrow> ('f, 'o) lib \<Rightarrow> 'w WixApiClient \<Rightarrow> string option \<Rightarrow> int \<Rightarrow> AddToCartOptions option \<Rightarrow>
   'w app \<Rightarrow> (js_exn + Cart) \<times> 'w app" where
  "useCart_addToCart U L wixClient productId quantity options =
     triggerAddToCart U L wixClient
       \<lparr>arg_id = productId, arg_quantity = quantity, arg_options = options\<rparr>"

section \<open>The product page: \<^verbatim>\<open>useProductDetails\<close>\<close>

text \<open>
  \<^verbatim>\<open>selectedChoices\<close> is a JavaScript object used as a dictionary: an association list
  in which writing a key that is there replaces its value in place and writing a new
  key appends it. A value \<open>None\<close> is a key that holds \<^verbatim>\<open>undefined\<close>. (The order in which
  JavaScript lists keys that look like integers is not modelled; nothing here depends on
  the order.)
\<close>

text \<open>\<^verbatim>\<open>option?.choices?.length === 1 ? option.choices[0] : undefined\<close>\<close>

definition single_choice :: "ProductOption \<Rightarrow> Choice option" where
  "single_choice option = (case choices option of
     Some [c] \<Rightarrow> Some c
   | _ \<Rightarrow> None)"

text \<open>\<^verbatim>\<open>if (option.name)\<close>: the name is there and is not the empty string.\<close>

definition truthy_name :: "ProductOption \<Rightarrow> string option" where
  "truthy_name option = (case option_name option of
     None \<Rightarrow> None
   | Some n \<Rightarrow> if n = [] then None else Some n)"

text \<open>
  The body of the loop: \<^verbatim>\<open>if (option.name) result[option.name] = ...\<close>. \<^verbatim>\<open>result\<close> is an
  object literal, so the assignment to the name \<^verbatim>\<open>__proto__\<close> goes to the setter of
  \<^verbatim>\<open>Object.prototype\<close> and creates no property of \<^verbatim>\<open>result\<close>; every other name becomes a
  property. (The prototype that the setter may change is outside the model: the page reads
  the object's own properties only, with \<^verbatim>\<open>Object.values\<close> and the spread.)
\<close>

definition assign_initial :: "SelectedChoices \<Rightarrow> ProductOption \<Rightarrow> SelectedChoices" where
  "assign_initial result option = (case truthy_name option of
     None \<Rightarrow> result
   | Some n \<Rightarrow>
       if n = ''__proto__'' then result
       else AList.update n (single_choice option) result)"

definition getInitialSelectedChoices :: "Product \<Rightarrow> SelectedChoices" where
  "getInitialSelectedChoices product =
     foldl assign_initial [] (case productOptions product of None \<Rightarrow> [] | Some os \<Rightarrow> os)"

record 'w details =
  app :: "'w app"
  selectedChoices :: SelectedChoices
  quantity :: int
  addToCartAttempted :: bool
  cartIsOpen :: bool

definition useProductDetails :: "Product \<Rightarrow> 'w app \<Rightarrow> bool \<Rightarrow> 'w details" where
  "useProductDetails product a isOpen =
     \<lparr>app = a, selectedChoices = getInitialSelectedChoices product, quantity = 1,
      addToCartAttempted = False, cartIsOpen = isOpen\<rparr>"



text \<open>
  \<^verbatim>\<open>{...prev, [optionName]: newChoice}\<close>: a computed key defines a property of the new
  object for every name, \<^verbatim>\<open>__proto__\<close> included.
\<close>

definition handleOptionChange :: "string \<Rightarrow> Choice \<Rightarrow> 'w details \<Rightarrow> 'w details" where
  "handleOptionChange optionName newChoice s =
     s\<lparr>quantity := 1, selectedChoices := AList.update optionName (Some newChoice) (selectedChoices s)\<rparr>"



section \<open>A reference platform\<close>

text \<open>
  The theorems below hold for every platform. The scenarios and the concrete instances
  need one platform to run on: a store with a catalogue and one cart, in which the calls
  do what their names say, and a schedule of faults that makes chosen calls reject. It
  stands for the remote platform and is no part of the repository.
\<close>

record store =
  store_products :: "Product list"
  store_collections :: "Collection list"
  store_orders :: "Order list"
  store_cart :: "LineItem list"
  store_next :: nat
  store_session :: "RedirectSession option"
  store_faults :: "js_exn option list"

definition with_faults :: "(store \<Rightarrow> (js_exn + 'a) \<times> store) \<Rightarrow> store \<Rightarrow> (js_exn + 'a) \<times> store" where
  "with_faults f w = (case store_faults w of
     [] \<Rightarrow> f w
   | None # fs \<Rightarrow> f (w\<lparr>store_faults := fs\<rparr>)
   | Some e # fs \<Rightarrow> (Inl e, w\<lparr>store_faults := fs\<rparr>))"

definition product_price :: "Product \<Rightarrow> rat" where
  "product_price p = (case priceData p of
     None \<Rightarrow> 0
   | Some d \<Rightarrow> (case price d of None \<Rightarrow> 0 | Some v \<Rightarrow> v))"

fun run_op :: "Product list \<Rightarrow> QueryOp \<Rightarrow> Product list" where
  "run_op ps (HasSome f vs) =
     (if f = ''collectionIds'' then filter (\<lambda>p. list_ex (\<lambda>c. Some c \<in> set vs) (collectionIds p)) ps
      else ps)"
| "run_op ps (Eq f v) = (if f = ''slug'' then filter (\<lambda>p. product_slug p = Some v) ps else ps)"
| "run_op ps (Ge f v) = (if f = ''price'' then filter (\<lambda>p. v \<le> product_price p) ps else ps)"
| "run_op ps (Le f v) = (if f = ''price'' then filter (\<lambda>p. product_price p \<le> v) ps else ps)"
| "run_op ps (Ascending f) = (if f = ''price'' then sort_key product_price ps else ps)"
| "run_op ps (Descending f) = (if f = ''price'' then rev (sort_key product_price ps) else ps)"
| "run_op ps (Skip n) = drop n ps"
| "run_op ps (Limit n) = take n ps"

fun is_paging :: "QueryOp \<Rightarrow> bool" where
  "is_paging (Skip n) = True"
| "is_paging (Limit n) = True"
| "is_paging _ = False"

definition run_query :: "ProductsQuery \<Rightarrow> Product list \<Rightarrow> ProductsQueryResult" where
  "run_query q ps =
     \<lparr>items = foldl run_op ps q,
      totalCount = Some (length (foldl run_op ps (filter (\<lambda>op. \<not> is_paging op) q)))\<rparr>"

definition fresh_id :: "nat \<Rightarrow> string" where
  "fresh_id n = ''item-'' @ replicate (Suc n) CHR ''i''"

fun add_items :: "LineItemInput list \<Rightarrow> store \<Rightarrow> store" where
  "add_items [] w = w"
| "add_items (x # xs) w =
     add_items xs
       (w\<lparr>store_cart := store_cart w @
             [\<lparr>lineitem_id = Some (fresh_id (store_next w)),
               lineitem_quantity = Some (input_quantity x),
               catalogReference = Some (input_catalogReference x)\<rparr>],
          store_next := Suc (store_next w)\<rparr>)"

definition set_quantities :: "(string option \<times> int) list \<Rightarrow> LineItem list \<Rightarrow> LineItem list" where
  "set_quantities upd lis =
     map (\<lambda>li. case map_of upd (lineitem_id li) of
                 None \<Rightarrow> li
               | Some q \<Rightarrow> li\<lparr>lineitem_quantity := Some q\<rparr>) lis"

definition ref_client :: "store WixApiClient" where
  "ref_client =
     \<lparr>products_find = (\<lambda>q. with_faults (\<lambda>w. (Inr (run_query q (store_products w)), w))),
      collections_getCollectionBySlug =
        (\<lambda>slug. with_faults (\<lambda>w.
           (Inr (find (\<lambda>c. slug \<noteq> None \<and> collection_slug c = slug) (store_collections w)), w))),
      collections_find = with_faults (\<lambda>w. (Inr (store_collections w), w)),
      currentCart_getCurrentCart = with_faults (\<lambda>w. (Inr \<lparr>lineItems = store_cart w\<rparr>, w)),
      currentCart_estimateCurrentCartTotals = with_faults (\<lambda>w. (Inr \<lparr>subtotal = 0\<rparr>, w)),
      currentCart_updateCurrentCartLineItemQuantity =
        (\<lambda>upd. with_faults (\<lambda>w.
           let c = set_quantities upd (store_cart w)
           in (Inr (Some \<lparr>lineItems = c\<rparr>), w\<lparr>store_cart := c\<rparr>))),
      currentCart_removeLineItemsFromCurrentCart =
        (\<lambda>ids. with_faults (\<lambda>w.
           let c = filter (\<lambda>li. lineitem_id li \<notin> Some ` set ids) (store_cart w)
           in (Inr (Some \<lparr>lineItems = c\<rparr>), w\<lparr>store_cart := c\<rparr>))),
      currentCart_addToCurrentCart =
        (\<lambda>xs. with_faults (\<lambda>w.
           let w' = add_items xs w in (Inr (Some \<lparr>lineItems = store_cart w'\<rparr>), w'))),
      currentCart_createCheckoutFromCurrentCart =
        (\<lambda>channel. with_faults (\<lambda>w. (Inr (Some ''checkout-1''), w))),
      redirects_createRedirectSession =
        (\<lambda>request. with_faults (\<lambda>w. (Inr (store_session w), w))),
      orders_getOrder =
        (\<lambda>i. with_faults (\<lambda>w. (Inr (find (\<lambda>ord. order_id ord = Some i) (store_orders w)), w)))\<rparr>"

definition empty_store :: store where
  "empty_store =
     \<lparr>store_products = [], store_collections = [], store_orders = [], store_cart = [],
      store_next = 0, store_session = Some \<lparr>fullUrl = Some ''https://checkout.example/s1''\<rparr>,
      store_faults = []\<rparr>"

text \<open>
  One choice for the parameters that the Gateway imports. Its \<open>number_plus\<close> is the integer
  sum, which is JavaScript's sum on safe integers; the instances below stay within them.
\<close>

fun plain_message :: "js_exn \<Rightarrow> string" where
  "plain_message (Error m) = m"
| "plain_message (EcomSDKError c m) = m"
| "plain_message (ThrownError e) = error_message e"

definition plain_lib :: "(unit, unit) lib" where
  "plain_lib =
     \<lparr>getErrorMessage = plain_message,
      getFilteredProductsQuery = (\<lambda>q f. Inr q),
      getSortedProductsQuery = (\<lambda>q sortBy. Inr q),
      WIX_STORES_APP_ID = ''stores-app'',
      window_location_origin = Some ''https://shop.example'',
      promise_race = False,
      number_plus = (\<lambda>a b. a + b)\<rparr>"

definition online :: "store \<Rightarrow> store net" where
  "online w = \<lparr>platform = w, calls = []\<rparr>"

section \<open>Scenarios\<close>

text \<open>
  Modelled from the spec: \<^verbatim>\<open>findItemIdInCart\<close> of \<^verbatim>\<open>~/lib/utils\<close> is not among the sources.
  The spec's rule: a line item matches a candidate iff the catalog item id is equal and
  the variant id is equal (variant-managed) or the full set of option choices is equal
  (option-managed). The hook reads \<^verbatim>\<open>_id\<close> and \<^verbatim>\<open>quantity\<close> of what is returned, so the
  first matching line item is returned. No options at all count as the empty set of
  choices.
\<close>

fun same_options :: "AddToCartOptions option \<Rightarrow> AddToCartOptions option \<Rightarrow> bool" where
  "same_options (Some (VariantId a)) (Some (VariantId b)) = (a = b)"
| "same_options (Some (VariantId a)) _ = False"
| "same_options _ (Some (VariantId b)) = False"
| "same_options (Some (Options a)) (Some (Options b)) = (set a = set b)"
| "same_options (Some (Options a)) None = (set a = {})"
| "same_options None (Some (Options b)) = (set b = {})"
| "same_options None None = True"

definition findItemIdInCart_spec ::
  "Cart \<Rightarrow> string option \<Rightarrow> AddToCartOptions option \<Rightarrow> LineItem option" where
  "findItemIdInCart_spec cart i opts =
     find (\<lambda>li. case catalogReference li of
                  None \<Rightarrow> False
                | Some r \<Rightarrow> catalogItemId r = i \<and> same_options (reference_options r) opts)
       (lineItems cart)"

text \<open>The page has loaded an empty cart from the reference platform and rendered it.\<close>

definition empty_cart_loaded :: "store app" where
  "empty_cart_loaded =
     \<lparr>net = online empty_store, cartData = Some \<lparr>lineItems = []\<rparr>,
      renderedCart = Some \<lparr>lineItems = []\<rparr>, updatingCartItemIds = [], updatingHistory = [],
      unhandledRejections = []\<rparr>"

definition size_line :: "nat \<Rightarrow> int \<Rightarrow> string \<Rightarrow> LineItem" where
  "size_line n q sz =
     \<lparr>lineitem_id = Some (fresh_id n), lineitem_quantity = Some q,
      catalogReference = Some \<lparr>catalogItemId = Some ''P'', appId = ''stores-app'',
                               reference_options = Some (Options [(''Size'', sz)])\<rparr>\<rparr>"

text \<open>An add-to-cart through \<^verbatim>\<open>useCart\<close>, followed by the render that shows its answer.\<close>

definition add_rendered ::
  "utils \<Rightarrow> ('f, 'o) lib \<Rightarrow> 'w WixApiClient \<Rightarrow> string option \<Rightarrow> int \<Rightarrow> AddToCartOptions option \<Rightarrow>
   'w app \<Rightarrow> 'w app" where
  "add_rendered U L wixClient productId q opts s =
     render (snd (useCart_addToCart U L wixClient productId q opts s))"

text \<open>The line item that the reference platform makes of an insert.\<close>

definition added_line ::
  "('f, 'o) lib \<Rightarrow> nat \<Rightarrow> string option \<Rightarrow> int \<Rightarrow> AddToCartOptions option \<Rightarrow> LineItem" where
  "added_line L n i q opts =
     \<lparr>lineitem_id = Some (fresh_id n), lineitem_quantity = Some q,
      catalogReference = Some \<lparr>catalogItemId = i, appId = WIX_STORES_APP_ID L,
                               reference_options = opts\<rparr>\<rparr>"

text \<open>A category \<^verbatim>\<open>shoes\<close> with three products, priced 10, 25 and 7.\<close>

definition priced :: "rat \<Rightarrow> Product" where
  "priced v =
     \<lparr>product_id = None, product_slug = None, manageVariants = None, productOptions = None,
      priceData = Some \<lparr>price = Some v\<rparr>, collectionIds = [''c1'']\<rparr>"

definition shoes :: Collection where
  "shoes = \<lparr>collection_id = Some ''c1'', collection_slug = Some ''shoes''\<rparr>"

definition shoe_store :: store where
  "shoe_store = empty_store
     \<lparr>store_products := [priced 10, priced 25, priced 7], store_collections := [shoes]\<rparr>"

text \<open>Products for the product page.\<close>

definition choice :: "string \<Rightarrow> Choice" where
  "choice v = \<lparr>choice_value = Some v, choice_description = Some v\<rparr>"

definition with_options :: "ProductOption list \<Rightarrow> Product" where
  "with_options os =
     \<lparr>product_id = Some ''P'', product_slug = Some ''p'', manageVariants = Some False,
      productOptions = Some os, priceData = None, collectionIds = []\<rparr>"

text \<open>
  The name under which an option gets an entry of the initial selection: a name that is
  there, is not empty and is not \<^verbatim>\<open>__proto__\<close>.
\<close>

definition entry_name :: "ProductOption \<Rightarrow> string option" where
  "entry_name opt = (case option_name opt of
     None \<Rightarrow> None
   | Some n \<Rightarrow> if n = [] \<or> n = ''__proto__'' then None else Some n)"

text \<open>The names of the options that get an entry, in the order of the options.\<close>

definition option_names :: "ProductOption list \<Rightarrow> string list" where
  "option_names os = List.map_filter entry_name os"

text \<open>The option that wrote an entry last: the last option of the list with that name.\<close>

definition last_named :: "string \<Rightarrow> ProductOption list \<Rightarrow> ProductOption option" where
  "last_named n os = find (\<lambda>opt. entry_name opt = Some n) (rev os)"

text \<open>
  The helpers for the instances: the matching rule of the spec; the two helpers of the
  product page stand for a product without variants, whose choices are handed on by
  their values.
\<close>

definition scenario_utils :: utils where
  "scenario_utils =
     \<lparr>findItemIdInCart = findItemIdInCart_spec,
      getSelectedVariant = (\<lambda>product selected. None),
      selectedChoicesToVariantChoices =
        (\<lambda>product selected.
           concat (map (\<lambda>(n, c). case c of
                                     None \<Rightarrow> []
                                   | Some ch \<Rightarrow> (case choice_value ch of
                                                  None \<Rightarrow> []
                                                | Some v \<Rightarrow> [(n, v)])) selected))\<rparr>"

text \<open>A product with two options of the same name.\<close>

definition two_sizes :: Product where
  "two_sizes = with_options
     [\<lparr>option_name = Some ''Size'', choices = Some [choice ''S'', choice ''M'']\<rparr>,
      \<lparr>option_name = Some ''Size'', choices = Some [choice ''L'']\<rparr>]"


text \<open>A product whose only option has two choices and the name \<^verbatim>\<open>__proto__\<close>.\<close>

definition proto_option :: Product where
  "proto_option = with_options
     [\<lparr>option_name = Some ''__proto__'', choices = Some [choice ''S'', choice ''M'']\<rparr>]"

text \<open>A product with one option of two choices and one option of a single choice.\<close>

definition size_and_colour :: Product where
  "size_and_colour = with_options
     [\<lparr>option_name = Some ''Size'', choices = Some [choice ''S'', choice ''M'']\<rparr>,
      \<lparr>option_name = Some ''Colour'', choices = Some [choice ''Red'']\<rparr>]"

section \<open>Properties of the Gateway\<close>

lemmas async_defs = resolve_def throw_def await_def try_catch_def invoke_def sync_def
  successResponse_def failureResponse_def Let_def




















lemma getCategoryBySlug_calls:
  "calls (snd (getCategoryBySlug L wixClient slug s)) = calls s @ [GetCollectionBySlug (Some slug)]"
  by (auto simp: getCategoryBySlug_def async_defs split: prod.splits sum.splits option.splits)

lemmas ref_defs = ref_client_def with_faults_def empty_store_def plain_lib_def online_def



text \<open>
  Claim C3. When the lookup of the requested category fails with \<open>CategoryNotFound\<close>,
  \<^verbatim>\<open>getFeaturedProducts\<close> looks up \<^verbatim>\<open>'all-products'\<close> next; when that lookup fails too,
  whatever its error, the promise rejects with the error of the first lookup.
\<close>

theorem getFeaturedProducts_original_error:
  "(getCategoryBySlug L wixClient categorySlug s =
       (Inr (Failure (EcomAPIError CategoryNotFound m)), s1) \<and>
    getCategoryBySlug L wixClient ''all-products'' s1 = (Inr (Failure fallbackError), s2) \<longrightarrow>
      getFeaturedProducts L wixClient categorySlug n s =
        (Inl (ThrownError (EcomAPIError CategoryNotFound m)), s2) \<and>
      calls s2 = calls s @ [GetCollectionBySlug (Some categorySlug),
                            GetCollectionBySlug (Some ''all-products'')])"
proof (intro impI, elim conjE)
  assume a: "getCategoryBySlug L wixClient categorySlug s =
       (Inr (Failure (EcomAPIError CategoryNotFound m)), s1)"
    and b: "getCategoryBySlug L wixClient ''all-products'' s1 = (Inr (Failure fallbackError), s2)"
  have "getFeaturedProducts L wixClient categorySlug n s =
        (Inl (ThrownError (EcomAPIError CategoryNotFound m)), s2)"
    using a b by (simp add: getFeaturedProducts_def await_def throw_def)
  moreover have "calls s1 = calls s @ [GetCollectionBySlug (Some categorySlug)]"
    using getCategoryBySlug_calls[of L wixClient categorySlug s] a by simp
  moreover have "calls s2 = calls s1 @ [GetCollectionBySlug (Some ''all-products'')]"
    using getCategoryBySlug_calls[of L wixClient "''all-products''" s1] b by simp
  ultimately show "getFeaturedProducts L wixClient categorySlug n s =
        (Inl (ThrownError (EcomAPIError CategoryNotFound m)), s2) \<and>
      calls s2 = calls s @ [GetCollectionBySlug (Some categorySlug),
                            GetCollectionBySlug (Some ''all-products'')]"
    by simp
qed

text \<open>
  An instance of C3 in which the two errors differ: the requested category does not
  exist, and the platform rejects the second lookup.
\<close>

theorem getFeaturedProducts_original_error_witness:
  "getCategoryBySlug plain_lib ref_client ''shoes''
     (online (empty_store\<lparr>store_faults := [None, Some (Error ''boom'')]\<rparr>)) =
     (Inr (Failure (EcomAPIError CategoryNotFound ''Category not found'')),
      \<lparr>platform = empty_store\<lparr>store_faults := [Some (Error ''boom'')]\<rparr>,
       calls = [GetCollectionBySlug (Some ''shoes'')]\<rparr>)
   \<and> getCategoryBySlug plain_lib ref_client ''all-products''
       \<lparr>platform = empty_store\<lparr>store_faults := [Some (Error ''boom'')]\<rparr>,
        calls = [GetCollectionBySlug (Some ''shoes'')]\<rparr> =
       (Inr (Failure (EcomAPIError GetCategoryFailure ''boom'')),
        \<lparr>platform = empty_store,
         calls = [GetCollectionBySlug (Some ''shoes''), GetCollectionBySlug (Some ''all-products'')]\<rparr>)
   \<and> getFeaturedProducts plain_lib ref_client ''shoes'' 4
       (online (empty_store\<lparr>store_faults := [None, Some (Error ''boom'')]\<rparr>)) =
       (Inl (ThrownError (EcomAPIError CategoryNotFound ''Category not found'')),
        \<lparr>platform = empty_store,
         calls = [GetCollectionBySlug (Some ''shoes''), GetCollectionBySlug (Some ''all-products'')]\<rparr>)"
proof -
  have a: "getCategoryBySlug plain_lib ref_client ''shoes''
     (online (empty_store\<lparr>store_faults := [None, Some (Error ''boom'')]\<rparr>)) =
     (Inr (Failure (EcomAPIError CategoryNotFound ''Category not found'')),
      \<lparr>platform = empty_store\<lparr>store_faults := [Some (Error ''boom'')]\<rparr>,
       calls = [GetCollectionBySlug (Some ''shoes'')]\<rparr>)"
    by (simp add: getCategoryBySlug_def async_defs ref_defs)
  have b: "getCategoryBySlug plain_lib ref_client ''all-products''
       \<lparr>platform = empty_store\<lparr>store_faults := [Some (Error ''boom'')]\<rparr>,
        calls = [GetCollectionBySlug (Some ''shoes'')]\<rparr> =
       (Inr (Failure (EcomAPIError GetCategoryFailure ''boom'')),
        \<lparr>platform = empty_store,
         calls = [GetCollectionBySlug (Some ''shoes''), GetCollectionBySlug (Some ''all-products'')]\<rparr>)"
    by (simp add: getCategoryBySlug_def async_defs ref_defs)
  show ?thesis
    using a b getFeaturedProducts_original_error[where L = plain_lib and wixClient = ref_client
        and categorySlug = "''shoes''" and m = "''Category not found''"
        and fallbackError = "EcomAPIError GetCategoryFailure ''boom''" and n = 4]
    by simp
qed

text \<open>
  Claim C4. \<^verbatim>\<open>checkout\<close> has two phases. When creating the checkout fails, the result
  is a failure with code \<open>CreateCheckoutFailure\<close> and the redirect session is never
  asked for. When the checkout was created and creating the redirect session fails, the
  result is a failure with code \<open>CreateCheckoutRedirectSessionFailure\<close>; once the
  checkout was created, no result carries the code \<open>CreateCheckoutFailure\<close>.
\<close>

theorem checkout_two_phase:
  "(currentCart_createCheckoutFromCurrentCart wixClient WEB (platform s) = (Inl e, w1) \<longrightarrow>
      checkout L wixClient s =
        (Inr (Failure (EcomAPIError CreateCheckoutFailure (getErrorMessage L e))),
         \<lparr>platform = w1, calls = calls s @ [CreateCheckoutFromCurrentCart WEB]\<rparr>))
   \<and> (currentCart_createCheckoutFromCurrentCart wixClient WEB (platform s) = (Inr checkoutId, w1) \<and>
      window_location_origin L = Some origin \<and>
      redirects_createRedirectSession wixClient
        \<lparr>ecomCheckout_checkoutId = checkoutId, postFlowUrl = origin,
         thankYouPageUrl = origin @ ''/thank-you''\<rparr> w1 = (Inl e, w2) \<longrightarrow>
      fst (checkout L wixClient s) =
        Inr (Failure (EcomAPIError CreateCheckoutRedirectSessionFailure (getErrorMessage L e))))
   \<and> (currentCart_createCheckoutFromCurrentCart wixClient WEB (platform s) = (Inr checkoutId, w1) \<longrightarrow>
      (\<exists>url. fst (checkout L wixClient s) = Inr (Success url)) \<or>
      (\<exists>m. fst (checkout L wixClient s) =
         Inr (Failure (EcomAPIError CreateCheckoutRedirectSessionFailure m))))"
  by (auto simp: checkout_def async_defs session_fullUrl_def
      split: prod.splits sum.splits option.splits)

text \<open>Instances of C4: the platform rejects the first call, or the second.\<close>

theorem checkout_two_phase_witness:
  "currentCart_createCheckoutFromCurrentCart ref_client WEB
     (empty_store\<lparr>store_faults := [Some (Error ''no cart'')]\<rparr>) =
     (Inl (Error ''no cart''), empty_store)
   \<and> checkout plain_lib ref_client (online (empty_store\<lparr>store_faults := [Some (Error ''no cart'')]\<rparr>)) =
       (Inr (Failure (EcomAPIError CreateCheckoutFailure ''no cart'')),
        \<lparr>platform = empty_store, calls = [CreateCheckoutFromCurrentCart WEB]\<rparr>)
   \<and> currentCart_createCheckoutFromCurrentCart ref_client WEB
       (empty_store\<lparr>store_faults := [None, Some (Error ''no session'')]\<rparr>) =
       (Inr (Some ''checkout-1''), empty_store\<lparr>store_faults := [Some (Error ''no session'')]\<rparr>)
   \<and> redirects_createRedirectSession ref_client
        \<lparr>ecomCheckout_checkoutId = Some ''checkout-1'', postFlowUrl = ''https://shop.example'',
         thankYouPageUrl = ''https://shop.example/thank-you''\<rparr>
        (empty_store\<lparr>store_faults := [Some (Error ''no session'')]\<rparr>) =
       (Inl (Error ''no session''), empty_store)
   \<and> fst (checkout plain_lib ref_client
            (online (empty_store\<lparr>store_faults := [None, Some (Error ''no session'')]\<rparr>))) =
       Inr (Failure (EcomAPIError CreateCheckoutRedirectSessionFailure ''no session''))"
  using checkout_two_phase[where wixClient = ref_client and L = plain_lib
      and s = "online (empty_store\<lparr>store_faults := [Some (Error ''no cart'')]\<rparr>)"
      and e = "Error ''no cart''" and ?w1.0 = empty_store]
    checkout_two_phase[where wixClient = ref_client and L = plain_lib
      and s = "online (empty_store\<lparr>store_faults := [None, Some (Error ''no session'')]\<rparr>)"
      and e = "Error ''no session''"
      and ?w1.0 = "empty_store\<lparr>store_faults := [Some (Error ''no session'')]\<rparr>"
      and checkoutId = "Some ''checkout-1''" and origin = "''https://shop.example''"
      and ?w2.0 = empty_store]
  by (simp add: ref_defs)

text \<open>
  Claim C10. A success result of \<^verbatim>\<open>checkout\<close> carries a non-empty url, and this url is
  the \<^verbatim>\<open>fullUrl\<close> of the redirect session that the platform returned. When the
  platform's redirect call succeeds and the session, or its url, is missing or the url is
  empty, the result is a failure with code \<open>CreateCheckoutRedirectSessionFailure\<close>.
\<close>

theorem checkout_url:
  "(fst (checkout L wixClient s) = Inr (Success url) \<longrightarrow>
      url \<noteq> [] \<and>
      (\<exists>checkoutId w1 origin session w2.
         currentCart_createCheckoutFromCurrentCart wixClient WEB (platform s) = (Inr checkoutId, w1) \<and>
         window_location_origin L = Some origin \<and>
         redirects_createRedirectSession wixClient
           \<lparr>ecomCheckout_checkoutId = checkoutId, postFlowUrl = origin,
            thankYouPageUrl = origin @ ''/thank-you''\<rparr> w1 = (Inr (Some session), w2) \<and>
         fullUrl session = Some url))
   \<and> (currentCart_createCheckoutFromCurrentCart wixClient WEB (platform s) = (Inr checkoutId, w1) \<and>
      window_location_origin L = Some origin \<and>
      redirects_createRedirectSession wixClient
        \<lparr>ecomCheckout_checkoutId = checkoutId, postFlowUrl = origin,
         thankYouPageUrl = origin @ ''/thank-you''\<rparr> w1 = (Inr redirectSession, w2) \<and>
      (redirectSession = None \<or>
       (\<exists>r. redirectSession = Some r \<and> (fullUrl r = None \<or> fullUrl r = Some []))) \<longrightarrow>
      fst (checkout L wixClient s) =
        Inr (Failure (EcomAPIError CreateCheckoutRedirectSessionFailure
               (getErrorMessage L (Error ''Missing redirect session url'')))))"
  by (auto simp: checkout_def async_defs session_fullUrl_def
      split: prod.splits sum.splits option.splits if_splits)

text \<open>Instances of C10: a session with a url, and a session whose url is empty.\<close>

theorem checkout_url_witness:
  "fst (checkout plain_lib ref_client (online empty_store)) =
     Inr (Success ''https://checkout.example/s1'')
   \<and> ''https://checkout.example/s1'' \<noteq> []
   \<and> currentCart_createCheckoutFromCurrentCart ref_client WEB
       (empty_store\<lparr>store_session := Some \<lparr>fullUrl = Some []\<rparr>\<rparr>) =
       (Inr (Some ''checkout-1''), empty_store\<lparr>store_session := Some \<lparr>fullUrl = Some []\<rparr>\<rparr>)
   \<and> redirects_createRedirectSession ref_client
        \<lparr>ecomCheckout_checkoutId = Some ''checkout-1'', postFlowUrl = ''https://shop.example'',
         thankYouPageUrl = ''https://shop.example/thank-you''\<rparr>
        (empty_store\<lparr>store_session := Some \<lparr>fullUrl = Some []\<rparr>\<rparr>) =
       (Inr (Some \<lparr>fullUrl = Some []\<rparr>), empty_store\<lparr>store_session := Some \<lparr>fullUrl = Some []\<rparr>\<rparr>)
   \<and> fst (checkout plain_lib ref_client
            (online (empty_store\<lparr>store_session := Some \<lparr>fullUrl = Some []\<rparr>\<rparr>))) =
       Inr (Failure (EcomAPIError CreateCheckoutRedirectSessionFailure
              ''Missing redirect session url''))"
  using checkout_url[where wixClient = ref_client and L = plain_lib and s = "online empty_store"
      and url = "''https://checkout.example/s1''"]
    checkout_url[where wixClient = ref_client and L = plain_lib
      and s = "online (empty_store\<lparr>store_session := Some \<lparr>fullUrl = Some []\<rparr>\<rparr>)"
      and checkoutId = "Some ''checkout-1''"
      and ?w1.0 = "empty_store\<lparr>store_session := Some \<lparr>fullUrl = Some []\<rparr>\<rparr>"
      and origin = "''https://shop.example''" and redirectSession = "Some \<lparr>fullUrl = Some []\<rparr>"
      and ?w2.0 = "empty_store\<lparr>store_session := Some \<lparr>fullUrl = Some []\<rparr>\<rparr>"]
  by (simp add: ref_defs checkout_def async_defs session_fullUrl_def)

lemmas query_defs = hasSome_def ascending_def descending_def limit_def skip_def eq_def
  queryProducts_def

text \<open>
  Claim C9. Once the category is found, \<^verbatim>\<open>getProductPriceBounds\<close> issues two product
  queries for it, one ascending and one descending by price, each with limit 1, whatever
  they answer. When both answer, \<open>lowest\<close> is the price of the first item of the
  ascending answer and \<open>highest\<close> that of the first item of the descending answer, with 0
  for a missing item, missing price data or a missing price. On a platform that sorts by
  price and keeps the first item, a category with products priced 10, 25 and 7 gives
  lowest 7 and highest 25.
\<close>

theorem getProductPriceBounds_queries:
  "(collections_getCollectionBySlug wixClient (Some categorySlug) (platform s) =
      (Inr (Some category), w1) \<and>
    qa = [HasSome ''collectionIds'' [collection_id category], Ascending ''price'', Limit 1] \<and>
    qd = [HasSome ''collectionIds'' [collection_id category], Descending ''price'', Limit 1] \<and>
    products_find wixClient qa w1 = (Inr ascendingPrice, w2) \<and>
    products_find wixClient qd w2 = (Inr descendingPrice, w3) \<longrightarrow>
      getProductPriceBounds L wixClient categorySlug s =
        (Inr (Success \<lparr>lowest = first_price_or_0 ascendingPrice,
                        highest = first_price_or_0 descendingPrice\<rparr>),
         \<lparr>platform = w3,
          calls = calls s @ [GetCollectionBySlug (Some categorySlug), ProductsFind qa, ProductsFind qd]\<rparr>))
   \<and> (collections_getCollectionBySlug wixClient (Some categorySlug) (platform s) =
        (Inr (Some category), w1) \<longrightarrow>
      calls (snd (getProductPriceBounds L wixClient categorySlug s)) =
        calls s @
          [GetCollectionBySlug (Some categorySlug),
           ProductsFind [HasSome ''collectionIds'' [collection_id category], Ascending ''price'',
                         Limit 1],
           ProductsFind [HasSome ''collectionIds'' [collection_id category], Descending ''price'',
                         Limit 1]])
   \<and> first_price_or_0 \<lparr>items = [], totalCount = t\<rparr> = 0
   \<and> first_price_or_0 \<lparr>items = p\<lparr>priceData := None\<rparr> # ps, totalCount = t\<rparr> = 0
   \<and> first_price_or_0 \<lparr>items = p\<lparr>priceData := Some \<lparr>price = None\<rparr>\<rparr> # ps, totalCount = t\<rparr> = 0
   \<and> first_price_or_0 \<lparr>items = p\<lparr>priceData := Some \<lparr>price = Some v\<rparr>\<rparr> # ps, totalCount = t\<rparr> = v
   \<and> fst (getProductPriceBounds plain_lib ref_client ''shoes'' (online shoe_store)) =
       Inr (Success \<lparr>lowest = 7, highest = 25\<rparr>)"
proof -
  have scenario: "fst (getProductPriceBounds plain_lib ref_client ''shoes'' (online shoe_store)) =
       Inr (Success \<lparr>lowest = 7, highest = 25\<rparr>)"
    by (simp add: getProductPriceBounds_def promise_all2_def async_defs ref_defs shoe_store_def
        shoes_def priced_def run_query_def first_price_or_0_def product_price_def query_defs)
  have issued: "collections_getCollectionBySlug wixClient (Some categorySlug) (platform s) =
        (Inr (Some category), w1) \<longrightarrow>
      calls (snd (getProductPriceBounds L wixClient categorySlug s)) =
        calls s @
          [GetCollectionBySlug (Some categorySlug),
           ProductsFind [HasSome ''collectionIds'' [collection_id category], Ascending ''price'',
                         Limit 1],
           ProductsFind [HasSome ''collectionIds'' [collection_id category], Descending ''price'',
                         Limit 1]]"
    by (auto simp: getProductPriceBounds_def promise_all2_def async_defs query_defs
        split: prod.splits sum.splits)
  show ?thesis
    by (intro conjI scenario issued)
      (auto simp: getProductPriceBounds_def promise_all2_def async_defs first_price_or_0_def
        query_defs)
qed

text \<open>The instance of C9 on the store with the three products.\<close>

theorem getProductPriceBounds_queries_witness:
  "collections_getCollectionBySlug ref_client (Some ''shoes'') shoe_store =
     (Inr (Some shoes), shoe_store)
   \<and> products_find ref_client
        [HasSome ''collectionIds'' [Some ''c1''], Ascending ''price'', Limit 1] shoe_store =
       (Inr \<lparr>items = [priced 7], totalCount = Some 3\<rparr>, shoe_store)
   \<and> products_find ref_client
        [HasSome ''collectionIds'' [Some ''c1''], Descending ''price'', Limit 1] shoe_store =
       (Inr \<lparr>items = [priced 25], totalCount = Some 3\<rparr>, shoe_store)
   \<and> getProductPriceBounds plain_lib ref_client ''shoes'' (online shoe_store) =
       (Inr (Success \<lparr>lowest = 7, highest = 25\<rparr>),
        \<lparr>platform = shoe_store,
         calls = [GetCollectionBySlug (Some ''shoes''),
                  ProductsFind [HasSome ''collectionIds'' [Some ''c1''], Ascending ''price'', Limit 1],
                  ProductsFind [HasSome ''collectionIds'' [Some ''c1''], Descending ''price'', Limit 1]]\<rparr>)"
proof -
  have a: "collections_getCollectionBySlug ref_client (Some ''shoes'') shoe_store =
     (Inr (Some shoes), shoe_store)"
    by (simp add: ref_defs shoe_store_def shoes_def)
  have b: "products_find ref_client
        [HasSome ''collectionIds'' [Some ''c1''], Ascending ''price'', Limit 1] shoe_store =
       (Inr \<lparr>items = [priced 7], totalCount = Some 3\<rparr>, shoe_store)"
    by (simp add: ref_defs shoe_store_def run_query_def priced_def product_price_def)
  have c: "products_find ref_client
        [HasSome ''collectionIds'' [Some ''c1''], Descending ''price'', Limit 1] shoe_store =
       (Inr \<lparr>items = [priced 25], totalCount = Some 3\<rparr>, shoe_store)"
    by (simp add: ref_defs shoe_store_def run_query_def priced_def product_price_def)
  have d: "first_price_or_0 \<lparr>items = [priced 7], totalCount = Some 3\<rparr> = 7"
    "first_price_or_0 \<lparr>items = [priced 25], totalCount = Some 3\<rparr> = 25"
    by (simp_all add: first_price_or_0_def priced_def)
  show ?thesis
    using a b c d getProductPriceBounds_queries[where wixClient = ref_client and L = plain_lib
        and categorySlug = "''shoes''" and s = "online shoe_store" and category = shoes
        and ?w1.0 = shoe_store and ?w2.0 = shoe_store and ?w3.0 = shoe_store
        and ascendingPrice = "\<lparr>items = [priced 7], totalCount = Some 3\<rparr>"
        and descendingPrice = "\<lparr>items = [priced 25], totalCount = Some 3\<rparr>"
        and qa = "[HasSome ''collectionIds'' [Some ''c1''], Ascending ''price'', Limit 1]"
        and qd = "[HasSome ''collectionIds'' [Some ''c1''], Descending ''price'', Limit 1]"]
    by (simp add: online_def shoes_def)
qed

section \<open>Properties of the cart hooks\<close>

lemma updateCartItemQuantity_calls:
  "calls (snd (updateCartItemQuantity L wixClient i q s)) =
     calls s @ [UpdateCurrentCartLineItemQuantity [(id_or_undefined i, q)]]"
  by (auto simp: updateCartItemQuantity_def async_defs split: prod.splits sum.splits option.splits)

lemma removeItemFromCart_calls:
  "calls (snd (removeItemFromCart L wixClient i s)) =
     calls s @ [RemoveLineItemsFromCurrentCart [i]]"
  by (auto simp: removeItemFromCart_def async_defs split: prod.splits sum.splits option.splits)

lemma addToCart_calls:
  "calls (snd (addToCart L wixClient i q opts s)) =
     calls s @ [AddToCurrentCart [\<lparr>input_catalogReference =
        \<lparr>catalogItemId = i, appId = WIX_STORES_APP_ID L, reference_options = opts\<rparr>,
        input_quantity = q\<rparr>]]"
  by (auto simp: addToCart_def async_defs split: prod.splits sum.splits option.splits)

lemma await_body_or_throw_state:
  "snd (await m body_or_throw s) = snd (m s)"
  by (auto simp: await_def body_or_throw_def resolve_def throw_def
      split: prod.splits sum.splits EcomAPIResponse.splits)

lemma useSWRMutation_net: "net (snd (useSWRMutation f s)) = snd (f (net s))"
  by (auto simp: useSWRMutation_def split: prod.splits sum.splits)

lemma useSWRMutation_updating:
  "updatingCartItemIds (snd (useSWRMutation f s)) = updatingCartItemIds s"
  "updatingHistory (snd (useSWRMutation f s)) = updatingHistory s"
  by (auto simp: useSWRMutation_def split: prod.splits sum.splits)

lemma finally_settled_updating:
  "updatingCartItemIds (finally_settled i (r, s)) =
     filter (\<lambda>itemId. itemId \<noteq> i) (updatingCartItemIds s)"
  by (auto simp: finally_settled_def setUpdatingCartItems_def Let_def split: sum.splits)

lemma finally_settled_history:
  "updatingHistory (finally_settled i (r, s)) =
     updatingHistory s @ [(filter (\<lambda>itemId. itemId \<noteq> i) (updatingCartItemIds s), calls (net s))]"
  by (auto simp: finally_settled_def setUpdatingCartItems_def Let_def split: sum.splits)

lemma finally_settled_net: "net (finally_settled i (r, s)) = net s"
  by (auto simp: finally_settled_def setUpdatingCartItems_def Let_def split: sum.splits)

text \<open>
  Claim C5. The history of \<^verbatim>\<open>updatingCartItemIds\<close> that \<^verbatim>\<open>updateItemQuantity\<close> and
  \<^verbatim>\<open>removeItem\<close> leave has two new entries. The first is the set with the item's id
  added, written while the calls issued are still those from before: the id is in the set
  before the Gateway call is issued. The second is written after the one Gateway call of
  the mutation, resolved or rejected, and is the old set without any occurrence of the id.
  So after the mutation has settled the id is not in the set. The callback of \<^verbatim>\<open>finally\<close>
  removes the id from whatever state it runs in.
\<close>

theorem updating_set_cleared:
  "updatingHistory (updateItemQuantity L wixClient i q s) =
     updatingHistory s @
       [(updatingCartItemIds s @ [i], calls (net s)),
        (filter (\<lambda>itemId. itemId \<noteq> i) (updatingCartItemIds s),
         calls (net s) @ [UpdateCurrentCartLineItemQuantity [(id_or_undefined (Some i), q)]])]
   \<and> updatingCartItemIds (updateItemQuantity L wixClient i q s) =
       filter (\<lambda>itemId. itemId \<noteq> i) (updatingCartItemIds s)
   \<and> i \<notin> set (updatingCartItemIds (updateItemQuantity L wixClient i q s))
   \<and> calls (net (updateItemQuantity L wixClient i q s)) =
       calls (net s) @ [UpdateCurrentCartLineItemQuantity [(id_or_undefined (Some i), q)]]
   \<and> updatingHistory (removeItem L wixClient i s) =
       updatingHistory s @
         [(updatingCartItemIds s @ [i], calls (net s)),
          (filter (\<lambda>itemId. itemId \<noteq> i) (updatingCartItemIds s),
           calls (net s) @ [RemoveLineItemsFromCurrentCart [i]])]
   \<and> updatingCartItemIds (removeItem L wixClient i s) =
       filter (\<lambda>itemId. itemId \<noteq> i) (updatingCartItemIds s)
   \<and> i \<notin> set (updatingCartItemIds (removeItem L wixClient i s))
   \<and> calls (net (removeItem L wixClient i s)) =
       calls (net s) @ [RemoveLineItemsFromCurrentCart [i]]
   \<and> i \<notin> set (updatingCartItemIds (finally_settled i (r, s')))"
proof -
  let ?s1 = "setUpdatingCartItems (\<lambda>prev. prev @ [i]) s"
  have s1: "updatingCartItemIds ?s1 = updatingCartItemIds s @ [i]"
    "updatingHistory ?s1 = updatingHistory s @ [(updatingCartItemIds s @ [i], calls (net s))]"
    "net ?s1 = net s"
    by (simp_all add: setUpdatingCartItems_def)
  have upd: "updateItemQuantity L wixClient i q s =
      finally_settled i
        (fst (triggerUpdateItemQuantity L wixClient i q ?s1),
         snd (triggerUpdateItemQuantity L wixClient i q ?s1))"
    by (simp add: updateItemQuantity_def)
  have rem: "removeItem L wixClient i s =
      finally_settled i
        (fst (triggerRemoveItem L wixClient i ?s1), snd (triggerRemoveItem L wixClient i ?s1))"
    by (simp add: removeItem_def)
  show ?thesis
    unfolding upd rem finally_settled_updating finally_settled_net finally_settled_history
    by (simp add: s1 triggerUpdateItemQuantity_def triggerRemoveItem_def
        useSWRMutation_updating useSWRMutation_net await_body_or_throw_state
        updateCartItemQuantity_calls removeItemFromCart_calls)
qed

text \<open>
  Instances of C5, from a set that does not hold the id. The platform rejects the update:
  the id is added, then removed, the other id stays, and the rejection is left unhandled.
  The platform accepts the removal: the id is added and removed as well.
\<close>

theorem updating_set_cleared_witness:
  "updateItemQuantity plain_lib ref_client ''item-i'' 5
     (empty_cart_loaded
        \<lparr>net := online (empty_store\<lparr>store_faults := [Some (Error ''offline'')]\<rparr>),
         updatingCartItemIds := [''item-ii'']\<rparr>) =
   empty_cart_loaded
     \<lparr>net := \<lparr>platform = empty_store,
              calls = [UpdateCurrentCartLineItemQuantity [(Some ''item-i'', 5)]]\<rparr>,
      updatingCartItemIds := [''item-ii''],
      updatingHistory :=
        [([''item-ii'', ''item-i''], []),
         ([''item-ii''], [UpdateCurrentCartLineItemQuantity [(Some ''item-i'', 5)]])],
      unhandledRejections := [ThrownError (EcomAPIError UpdateCartItemQuantityFailure ''offline'')]\<rparr>
   \<and> removeItem plain_lib ref_client ''item-i''
       (empty_cart_loaded\<lparr>updatingCartItemIds := [''item-ii'']\<rparr>) =
     empty_cart_loaded
       \<lparr>net := \<lparr>platform = empty_store, calls = [RemoveLineItemsFromCurrentCart [''item-i'']]\<rparr>,
        updatingCartItemIds := [''item-ii''],
        updatingHistory :=
          [([''item-ii'', ''item-i''], []),
           ([''item-ii''], [RemoveLineItemsFromCurrentCart [''item-i'']])]\<rparr>"
  using updating_set_cleared[where L = plain_lib and wixClient = ref_client and i = "''item-i''"
      and q = 5
      and s = "empty_cart_loaded
        \<lparr>net := online (empty_store\<lparr>store_faults := [Some (Error ''offline'')]\<rparr>),
         updatingCartItemIds := [''item-ii'']\<rparr>"]
  by (simp add: updateItemQuantity_def triggerUpdateItemQuantity_def useSWRMutation_def
      removeItem_def triggerRemoveItem_def removeItemFromCart_def
      finally_settled_def setUpdatingCartItems_def updateCartItemQuantity_def body_or_throw_def
      empty_cart_loaded_def async_defs ref_defs id_or_undefined_def)

lemma same_options_refl: "same_options opts opts"
proof (cases opts)
  case None
  then show ?thesis by simp
next
  case (Some a)
  then show ?thesis by (cases a) simp_all
qed

lemma find_snoc:
  "find P (xs @ [y]) = (case find P xs of None \<Rightarrow> (if P y then Some y else None) | Some x \<Rightarrow> Some x)"
  by (induction xs) auto

lemma set_quantities_other:
  "\<forall>li \<in> set lis. lineitem_id li \<noteq> Some f \<Longrightarrow> set_quantities [(Some f, q)] lis = lis"
  by (induction lis) (auto simp: set_quantities_def)

lemma set_quantities_snoc:
  "set_quantities upd (lis @ [li]) = set_quantities upd lis @ set_quantities upd [li]"
  by (simp add: set_quantities_def)

lemma fresh_id_not_empty: "fresh_id n \<noteq> []"
  by (simp add: fresh_id_def)

lemma fresh_id_inject: "fresh_id m = fresh_id n \<longleftrightarrow> m = n"
proof
  assume "fresh_id m = fresh_id n"
  then have "length (fresh_id m) = length (fresh_id n)" by simp
  then show "m = n" by (simp add: fresh_id_def)
qed simp

lemma ref_addToCart:
  assumes "store_faults (platform n) = []"
  shows "addToCart L ref_client i q opts n =
    (Inr (Success \<lparr>lineItems = store_cart (platform n) @
        [\<lparr>lineitem_id = Some (fresh_id (store_next (platform n))), lineitem_quantity = Some q,
          catalogReference = Some \<lparr>catalogItemId = i, appId = WIX_STORES_APP_ID L,
                                   reference_options = opts\<rparr>\<rparr>]\<rparr>),
     \<lparr>platform = (platform n)
        \<lparr>store_cart := store_cart (platform n) @
           [\<lparr>lineitem_id = Some (fresh_id (store_next (platform n))), lineitem_quantity = Some q,
             catalogReference = Some \<lparr>catalogItemId = i, appId = WIX_STORES_APP_ID L,
                                      reference_options = opts\<rparr>\<rparr>],
         store_next := Suc (store_next (platform n))\<rparr>,
      calls = calls n @
        [AddToCurrentCart [\<lparr>input_catalogReference =
           \<lparr>catalogItemId = i, appId = WIX_STORES_APP_ID L, reference_options = opts\<rparr>,
           input_quantity = q\<rparr>]]\<rparr>)"
  using assms by (simp add: addToCart_def async_defs ref_client_def with_faults_def)

lemma ref_updateCartItemQuantity:
  assumes "store_faults (platform n) = []"
  shows "updateCartItemQuantity L ref_client j q n =
    (Inr (Success \<lparr>lineItems = set_quantities [(id_or_undefined j, q)] (store_cart (platform n))\<rparr>),
     \<lparr>platform = (platform n)
        \<lparr>store_cart := set_quantities [(id_or_undefined j, q)] (store_cart (platform n))\<rparr>,
      calls = calls n @ [UpdateCurrentCartLineItemQuantity [(id_or_undefined j, q)]]\<rparr>)"
  using assms by (simp add: updateCartItemQuantity_def async_defs ref_client_def with_faults_def)

lemma trigger_insert:
  assumes "renderedCart s = None \<or>
     (\<exists>c. renderedCart s = Some c \<and> findItemIdInCart U c (arg_id arg) (arg_options arg) = None)"
    and "addToCart L wixClient (arg_id arg) (arg_quantity arg) (arg_options arg) (net s) =
       (Inr (Success c1), n1)"
  shows "triggerAddToCart U L wixClient arg s = (Inr c1, s\<lparr>net := n1, cartData := Some c1\<rparr>)"
  using assms
  by (auto simp: triggerAddToCart_def useAddToCart_fetcher_def useSWRMutation_def await_def
      body_or_throw_def resolve_def)

lemma trigger_update:
  assumes "renderedCart s = Some c"
    and "findItemIdInCart U c (arg_id arg) (arg_options arg) = Some item"
    and "updateCartItemQuantity L wixClient (lineitem_id item)
           (number_plus L (quantity_or_0 item) (arg_quantity arg)) (net s) = (Inr (Success c1), n1)"
  shows "triggerAddToCart U L wixClient arg s = (Inr c1, s\<lparr>net := n1, cartData := Some c1\<rparr>)"
  using assms
  by (auto simp: triggerAddToCart_def useAddToCart_fetcher_def useSWRMutation_def await_def
      body_or_throw_def resolve_def)

lemma addToCart_resolved:
  assumes "currentCart_addToCurrentCart wixClient
     [\<lparr>input_catalogReference =
         \<lparr>catalogItemId = i, appId = WIX_STORES_APP_ID L, reference_options = opts\<rparr>,
       input_quantity = q\<rparr>] (platform n) = (Inr (Some c1), w1)"
  shows "addToCart L wixClient i q opts n =
    (Inr (Success c1),
     \<lparr>platform = w1,
      calls = calls n @
        [AddToCurrentCart [\<lparr>input_catalogReference =
           \<lparr>catalogItemId = i, appId = WIX_STORES_APP_ID L, reference_options = opts\<rparr>,
           input_quantity = q\<rparr>]]\<rparr>)"
  using assms by (simp add: addToCart_def async_defs)

lemma twice_rendered_calls:
  assumes none: "renderedCart s = None \<or>
       (\<exists>c. renderedCart s = Some c \<and> findItemIdInCart U c i opts = None)"
    and ins: "currentCart_addToCurrentCart wixClient
       [\<lparr>input_catalogReference =
           \<lparr>catalogItemId = i, appId = WIX_STORES_APP_ID L, reference_options = opts\<rparr>,
         input_quantity = q1\<rparr>] (platform (net s)) = (Inr (Some c1), w1)"
    and found: "findItemIdInCart U c1 i opts = Some item"
  shows "calls (net (snd (triggerAddToCart U L wixClient
            \<lparr>arg_id = i, arg_quantity = q2, arg_options = opts\<rparr>
            (render (snd (triggerAddToCart U L wixClient
               \<lparr>arg_id = i, arg_quantity = q1, arg_options = opts\<rparr> s)))))) =
         calls (net s) @
           [AddToCurrentCart [\<lparr>input_catalogReference =
              \<lparr>catalogItemId = i, appId = WIX_STORES_APP_ID L, reference_options = opts\<rparr>,
              input_quantity = q1\<rparr>],
            UpdateCurrentCartLineItemQuantity
              [(id_or_undefined (lineitem_id item), number_plus L (quantity_or_0 item) q2)]]"
proof -
  let ?n1 = "\<lparr>platform = w1, calls = calls (net s) @
        [AddToCurrentCart [\<lparr>input_catalogReference =
           \<lparr>catalogItemId = i, appId = WIX_STORES_APP_ID L, reference_options = opts\<rparr>,
           input_quantity = q1\<rparr>]]\<rparr>"
  have first: "triggerAddToCart U L wixClient \<lparr>arg_id = i, arg_quantity = q1, arg_options = opts\<rparr> s =
      (Inr c1, s\<lparr>net := ?n1, cartData := Some c1\<rparr>)"
    using none addToCart_resolved[OF ins] by (intro trigger_insert) simp_all
  have rendered: "renderedCart (render (s\<lparr>net := ?n1, cartData := Some c1\<rparr>)) = Some c1"
    "net (render (s\<lparr>net := ?n1, cartData := Some c1\<rparr>)) = ?n1"
    by (simp_all add: render_def)
  show ?thesis
    unfolding first snd_conv
    using found
    by (simp add: triggerAddToCart_def useAddToCart_fetcher_def useSWRMutation_net rendered
        await_body_or_throw_state updateCartItemQuantity_calls)
qed

lemma spec_finds_added:
  assumes "findItemIdInCart_spec \<lparr>lineItems = old\<rparr> i opts = None"
  shows "findItemIdInCart_spec \<lparr>lineItems = old @ [added_line L n i q opts]\<rparr> i opts =
         Some (added_line L n i q opts)"
  using assms by (simp add: findItemIdInCart_spec_def find_snoc added_line_def same_options_refl)

lemma spec_misses_other:
  assumes "findItemIdInCart_spec \<lparr>lineItems = old\<rparr> i opts' = None"
    and "\<not> same_options opts opts'"
  shows "findItemIdInCart_spec \<lparr>lineItems = old @ [added_line L n i q opts]\<rparr> i opts' = None"
  using assms by (simp add: findItemIdInCart_spec_def find_snoc added_line_def)

lemma set_quantities_added:
  assumes "\<forall>li \<in> set old. lineitem_id li \<noteq> Some (fresh_id n)"
  shows "set_quantities [(Some (fresh_id n), q')] (old @ [added_line L n i q opts]) =
         old @ [added_line L n i q' opts]"
  using assms by (simp add: set_quantities_snoc set_quantities_other)
    (simp add: set_quantities_def added_line_def)

lemma reference_twice:
  fixes s :: "store app" and U :: utils and L :: "('f, 'o) lib"
  assumes law: "\<forall>a b. safe_integer a \<and> safe_integer b \<and> safe_integer (a + b) \<longrightarrow>
                  number_plus L a b = a + b"
    and safe: "safe_integer q1" "safe_integer q2" "safe_integer (q1 + q2)"
    and faults: "store_faults (platform (net s)) = []"
    and stale: "renderedCart s = None \<or>
       (\<exists>c. renderedCart s = Some c \<and> findItemIdInCart_spec c i opts = None)"
    and absent: "findItemIdInCart_spec \<lparr>lineItems = store_cart (platform (net s))\<rparr> i opts = None"
    and fresh: "\<forall>li \<in> set (store_cart (platform (net s))).
                  lineitem_id li \<noteq> Some (fresh_id (store_next (platform (net s))))"
  defines "U' \<equiv> U\<lparr>findItemIdInCart := findItemIdInCart_spec\<rparr>"
  shows "add_rendered U' L ref_client i q2 opts (add_rendered U' L ref_client i q1 opts s) = s\<lparr>net := \<lparr>platform = (platform (net s))
                    \<lparr>store_cart := store_cart (platform (net s)) @
                       [added_line L (store_next (platform (net s))) i (q1 + q2) opts],
                     store_next := Suc (store_next (platform (net s)))\<rparr>,
                  calls = calls (net s) @
                    [AddToCurrentCart [\<lparr>input_catalogReference =
                        \<lparr>catalogItemId = i, appId = WIX_STORES_APP_ID L, reference_options = opts\<rparr>,
                        input_quantity = q1\<rparr>],
                     UpdateCurrentCartLineItemQuantity
                       [(Some (fresh_id (store_next (platform (net s)))), q1 + q2)]]\<rparr>,
           cartData := Some \<lparr>lineItems = store_cart (platform (net s)) @
                       [added_line L (store_next (platform (net s))) i (q1 + q2) opts]\<rparr>,
           renderedCart := Some \<lparr>lineItems = store_cart (platform (net s)) @
                       [added_line L (store_next (platform (net s))) i (q1 + q2) opts]\<rparr>\<rparr>"
proof -
  let ?w = "platform (net s)"
  let ?old = "store_cart ?w"
  let ?n = "store_next ?w"
  let ?c1 = "\<lparr>lineItems = ?old @ [added_line L ?n i q1 opts]\<rparr>"
  let ?n1 = "\<lparr>platform = ?w\<lparr>store_cart := ?old @ [added_line L ?n i q1 opts],
                             store_next := Suc ?n\<rparr>,
              calls = calls (net s) @
                [AddToCurrentCart [\<lparr>input_catalogReference =
                    \<lparr>catalogItemId = i, appId = WIX_STORES_APP_ID L, reference_options = opts\<rparr>,
                    input_quantity = q1\<rparr>]]\<rparr>"
  let ?s1 = "render (s\<lparr>net := ?n1, cartData := Some ?c1\<rparr>)"
  have stale': "renderedCart s = None \<or>
       (\<exists>c. renderedCart s = Some c \<and>
            findItemIdInCart U' c (arg_id \<lparr>arg_id = i, arg_quantity = q1, arg_options = opts\<rparr>)
              (arg_options \<lparr>arg_id = i, arg_quantity = q1, arg_options = opts\<rparr>) = None)"
    using stale by (simp add: U'_def)
  have first: "triggerAddToCart U' L ref_client \<lparr>arg_id = i, arg_quantity = q1, arg_options = opts\<rparr> s =
      (Inr ?c1, s\<lparr>net := ?n1, cartData := Some ?c1\<rparr>)"
    using ref_addToCart[OF faults, of L i q1 opts]
    by (intro trigger_insert[OF stale']) (simp add: added_line_def)
  have found: "findItemIdInCart U' ?c1 i opts = Some (added_line L ?n i q1 opts)"
    using spec_finds_added[OF absent] by (simp add: U'_def)
  have sum: "number_plus L (quantity_or_0 (added_line L ?n i q1 opts)) q2 = q1 + q2"
    using law safe by (simp add: quantity_or_0_def added_line_def)
  have faults1: "store_faults (platform (net ?s1)) = []"
    using faults by (simp add: render_def)
  have upd: "updateCartItemQuantity L ref_client (lineitem_id (added_line L ?n i q1 opts))
       (q1 + q2) (net ?s1) =
      (Inr (Success \<lparr>lineItems = ?old @ [added_line L ?n i (q1 + q2) opts]\<rparr>),
       \<lparr>platform = ?w\<lparr>store_cart := ?old @ [added_line L ?n i (q1 + q2) opts],
                      store_next := Suc ?n\<rparr>,
        calls = calls (net s) @
          [AddToCurrentCart [\<lparr>input_catalogReference =
              \<lparr>catalogItemId = i, appId = WIX_STORES_APP_ID L, reference_options = opts\<rparr>,
              input_quantity = q1\<rparr>],
           UpdateCurrentCartLineItemQuantity [(Some (fresh_id ?n), q1 + q2)]]\<rparr>)"
    using ref_updateCartItemQuantity[OF faults1, of L "lineitem_id (added_line L ?n i q1 opts)" "q1 + q2"]
      set_quantities_added[OF fresh, of "q1 + q2" L i q1 opts]
    by (simp add: render_def id_or_undefined_def fresh_id_not_empty added_line_def)
  have second: "triggerAddToCart U' L ref_client \<lparr>arg_id = i, arg_quantity = q2, arg_options = opts\<rparr> ?s1 =
      (Inr \<lparr>lineItems = ?old @ [added_line L ?n i (q1 + q2) opts]\<rparr>,
       ?s1\<lparr>net := \<lparr>platform = ?w\<lparr>store_cart := ?old @ [added_line L ?n i (q1 + q2) opts],
                      store_next := Suc ?n\<rparr>,
        calls = calls (net s) @
          [AddToCurrentCart [\<lparr>input_catalogReference =
              \<lparr>catalogItemId = i, appId = WIX_STORES_APP_ID L, reference_options = opts\<rparr>,
              input_quantity = q1\<rparr>],
           UpdateCurrentCartLineItemQuantity [(Some (fresh_id ?n), q1 + q2)]]\<rparr>,
           cartData := Some \<lparr>lineItems = ?old @ [added_line L ?n i (q1 + q2) opts]\<rparr>\<rparr>)"
  proof (rule trigger_update)
    show "renderedCart ?s1 = Some ?c1" by (simp add: render_def)
    show "findItemIdInCart U' ?c1 (arg_id \<lparr>arg_id = i, arg_quantity = q2, arg_options = opts\<rparr>)
            (arg_options \<lparr>arg_id = i, arg_quantity = q2, arg_options = opts\<rparr>) =
          Some (added_line L ?n i q1 opts)"
      using found by simp
    show "updateCartItemQuantity L ref_client (lineitem_id (added_line L ?n i q1 opts))
       (number_plus L (quantity_or_0 (added_line L ?n i q1 opts))
          (arg_quantity \<lparr>arg_id = i, arg_quantity = q2, arg_options = opts\<rparr>)) (net ?s1) =
      (Inr (Success \<lparr>lineItems = ?old @ [added_line L ?n i (q1 + q2) opts]\<rparr>),
       \<lparr>platform = ?w\<lparr>store_cart := ?old @ [added_line L ?n i (q1 + q2) opts],
                      store_next := Suc ?n\<rparr>,
        calls = calls (net s) @
          [AddToCurrentCart [\<lparr>input_catalogReference =
              \<lparr>catalogItemId = i, appId = WIX_STORES_APP_ID L, reference_options = opts\<rparr>,
              input_quantity = q1\<rparr>],
           UpdateCurrentCartLineItemQuantity [(Some (fresh_id ?n), q1 + q2)]]\<rparr>)"
      using upd sum by simp
  qed
  show ?thesis
    unfolding add_rendered_def useCart_addToCart_def first snd_conv second
    by (simp add: render_def)
qed

lemma reference_insert:
  fixes s :: "store app" and U :: utils and L :: "('f, 'o) lib"
  assumes faults: "store_faults (platform (net s)) = []"
    and stale: "renderedCart s = None \<or>
       (\<exists>c. renderedCart s = Some c \<and> findItemIdInCart_spec c i opts = None)"
  shows "add_rendered (U\<lparr>findItemIdInCart := findItemIdInCart_spec\<rparr>) L ref_client i q opts s =
         s\<lparr>net := \<lparr>platform = (platform (net s))
                    \<lparr>store_cart := store_cart (platform (net s)) @
                       [added_line L (store_next (platform (net s))) i q opts],
                     store_next := Suc (store_next (platform (net s)))\<rparr>,
                  calls = calls (net s) @
                    [AddToCurrentCart [\<lparr>input_catalogReference =
                        \<lparr>catalogItemId = i, appId = WIX_STORES_APP_ID L, reference_options = opts\<rparr>,
                        input_quantity = q\<rparr>]]\<rparr>,
           cartData := Some \<lparr>lineItems = store_cart (platform (net s)) @
                       [added_line L (store_next (platform (net s))) i q opts]\<rparr>,
           renderedCart := Some \<lparr>lineItems = store_cart (platform (net s)) @
                       [added_line L (store_next (platform (net s))) i q opts]\<rparr>\<rparr>"
proof -
  let ?U = "U\<lparr>findItemIdInCart := findItemIdInCart_spec\<rparr>"
  let ?arg = "\<lparr>arg_id = i, arg_quantity = q, arg_options = opts\<rparr>"
  have stale': "renderedCart s = None \<or>
       (\<exists>c. renderedCart s = Some c \<and>
            findItemIdInCart ?U c (arg_id ?arg) (arg_options ?arg) = None)"
    using stale by simp
  have "triggerAddToCart ?U L ref_client ?arg s =
      (Inr \<lparr>lineItems = store_cart (platform (net s)) @
                       [added_line L (store_next (platform (net s))) i q opts]\<rparr>,
       s\<lparr>net := \<lparr>platform = (platform (net s))
                    \<lparr>store_cart := store_cart (platform (net s)) @
                       [added_line L (store_next (platform (net s))) i q opts],
                     store_next := Suc (store_next (platform (net s)))\<rparr>,
                  calls = calls (net s) @
                    [AddToCurrentCart [\<lparr>input_catalogReference =
                        \<lparr>catalogItemId = i, appId = WIX_STORES_APP_ID L, reference_options = opts\<rparr>,
                        input_quantity = q\<rparr>]]\<rparr>,
         cartData := Some \<lparr>lineItems = store_cart (platform (net s)) @
                       [added_line L (store_next (platform (net s))) i q opts]\<rparr>\<rparr>)"
    using ref_addToCart[OF faults, of L i q opts]
    by (intro trigger_insert[OF stale']) (simp add: added_line_def)
  then show ?thesis by (simp add: add_rendered_def useCart_addToCart_def render_def)
qed

lemma reference_thrice:
  fixes s :: "store app" and U :: utils and L :: "('f, 'o) lib" and q3 :: int
  assumes law: "\<forall>a b. safe_integer a \<and> safe_integer b \<and> safe_integer (a + b) \<longrightarrow>
                  number_plus L a b = a + b"
    and safe: "safe_integer q1" "safe_integer q2" "safe_integer (q1 + q2)"
    and faults: "store_faults (platform (net s)) = []"
    and stale: "renderedCart s = None \<or>
       (\<exists>c. renderedCart s = Some c \<and> findItemIdInCart_spec c i opts = None)"
    and absent: "findItemIdInCart_spec \<lparr>lineItems = store_cart (platform (net s))\<rparr> i opts = None"
    and fresh: "\<forall>li \<in> set (store_cart (platform (net s))).
                  lineitem_id li \<noteq> Some (fresh_id (store_next (platform (net s))))"
    and other: "\<not> same_options opts opts'"
    and absent': "findItemIdInCart_spec \<lparr>lineItems = store_cart (platform (net s))\<rparr> i opts' = None"
  defines "U' \<equiv> U\<lparr>findItemIdInCart := findItemIdInCart_spec\<rparr>"
  defines "s3 \<equiv> add_rendered U' L ref_client i q3 opts'
                   (add_rendered U' L ref_client i q2 opts (add_rendered U' L ref_client i q1 opts s))"
  shows "cartData s3 = Some \<lparr>lineItems = store_cart (platform (net s)) @
           [added_line L (store_next (platform (net s))) i (q1 + q2) opts,
            added_line L (Suc (store_next (platform (net s)))) i q3 opts']\<rparr>"
    and "store_cart (platform (net s3)) = store_cart (platform (net s)) @
           [added_line L (store_next (platform (net s))) i (q1 + q2) opts,
            added_line L (Suc (store_next (platform (net s)))) i q3 opts']"
proof -
  let ?s2 = "add_rendered U' L ref_client i q2 opts (add_rendered U' L ref_client i q1 opts s)"
  have two: "?s2 = s\<lparr>net := \<lparr>platform = (platform (net s))
                    \<lparr>store_cart := store_cart (platform (net s)) @
                       [added_line L (store_next (platform (net s))) i (q1 + q2) opts],
                     store_next := Suc (store_next (platform (net s)))\<rparr>,
                  calls = calls (net s) @
                    [AddToCurrentCart [\<lparr>input_catalogReference =
                        \<lparr>catalogItemId = i, appId = WIX_STORES_APP_ID L, reference_options = opts\<rparr>,
                        input_quantity = q1\<rparr>],
                     UpdateCurrentCartLineItemQuantity
                       [(Some (fresh_id (store_next (platform (net s)))), q1 + q2)]]\<rparr>,
           cartData := Some \<lparr>lineItems = store_cart (platform (net s)) @
                       [added_line L (store_next (platform (net s))) i (q1 + q2) opts]\<rparr>,
           renderedCart := Some \<lparr>lineItems = store_cart (platform (net s)) @
                       [added_line L (store_next (platform (net s))) i (q1 + q2) opts]\<rparr>\<rparr>"
    unfolding U'_def by (rule reference_twice[OF law safe faults stale absent fresh])
  have faults2: "store_faults (platform (net ?s2)) = []"
    using faults unfolding two by simp
  have stale2: "renderedCart ?s2 = None \<or>
       (\<exists>c. renderedCart ?s2 = Some c \<and> findItemIdInCart_spec c i opts' = None)"
    using spec_misses_other[OF absent' other] unfolding two by simp
  have three: "s3 = ?s2\<lparr>net := \<lparr>platform = (platform (net ?s2))
                    \<lparr>store_cart := store_cart (platform (net ?s2)) @
                       [added_line L (store_next (platform (net ?s2))) i q3 opts'],
                     store_next := Suc (store_next (platform (net ?s2)))\<rparr>,
                  calls = calls (net ?s2) @
                    [AddToCurrentCart [\<lparr>input_catalogReference =
                        \<lparr>catalogItemId = i, appId = WIX_STORES_APP_ID L, reference_options = opts'\<rparr>,
                        input_quantity = q3\<rparr>]]\<rparr>,
           cartData := Some \<lparr>lineItems = store_cart (platform (net ?s2)) @
                       [added_line L (store_next (platform (net ?s2))) i q3 opts']\<rparr>,
           renderedCart := Some \<lparr>lineItems = store_cart (platform (net ?s2)) @
                       [added_line L (store_next (platform (net ?s2))) i q3 opts']\<rparr>\<rparr>"
    unfolding s3_def U'_def
    by (rule reference_insert[OF faults2[unfolded U'_def] stale2[unfolded U'_def]])
  have cart2: "store_cart (platform (net ?s2)) = store_cart (platform (net s)) @
                       [added_line L (store_next (platform (net s))) i (q1 + q2) opts]"
    "store_next (platform (net ?s2)) = Suc (store_next (platform (net s)))"
    unfolding two by simp_all
  show "cartData s3 = Some \<lparr>lineItems = store_cart (platform (net s)) @
           [added_line L (store_next (platform (net s))) i (q1 + q2) opts,
            added_line L (Suc (store_next (platform (net s)))) i q3 opts']\<rparr>"
    unfolding three by (simp add: cart2)
  show "store_cart (platform (net s3)) = store_cart (platform (net s)) @
           [added_line L (store_next (platform (net s))) i (q1 + q2) opts,
            added_line L (Suc (store_next (platform (net s)))) i q3 opts']"
    unfolding three by (simp add: cart2)
qed

text \<open>
  Claim C1, as amended. For every add-to-cart trigger: when the cart of the last render
  holds a line item that \<^verbatim>\<open>findItemIdInCart\<close> matches to the candidate, the only call
  issued is an update of that item's quantity to JavaScript's sum of its quantity (0 when
  it has none) and the requested quantity, which is their integer sum when the two and the
  sum are safe integers, and nothing is inserted; when there is no rendered cart or no
  match, the only call issued is one insert with the requested quantity.

  Adding the same combination twice, with the answer to the first rendered before the
  second starts: on every platform, when the insert succeeds and the matching rule finds a
  line in the cart it returns, the calls are that insert and one update of that line, and
  no second insert. On the reference platform with the matching rule of the spec, for every
  product id, combination and safe quantities, and every cart that holds no line of the
  combination: the cart then holds one new line with the combined quantity, and adding a
  different combination after that gives a second line with another id.
\<close>

theorem addToCart_update_or_insert:
  fixes s :: "'w app" and wixClient :: "'w WixApiClient" and L :: "('f, 'o) lib" and U :: utils
    and r :: "store app"
  shows
  "(renderedCart s = Some cart \<and>
    findItemIdInCart U cart (arg_id arg) (arg_options arg) = Some itemInCart \<longrightarrow>
      calls (net (snd (triggerAddToCart U L wixClient arg s))) =
        calls (net s) @
          [UpdateCurrentCartLineItemQuantity
             [(id_or_undefined (lineitem_id itemInCart),
               number_plus L (quantity_or_0 itemInCart) (arg_quantity arg))]])
   \<and> ((\<forall>a b. safe_integer a \<and> safe_integer b \<and> safe_integer (a + b) \<longrightarrow>
             number_plus L a b = a + b) \<and>
      safe_integer (quantity_or_0 itemInCart) \<and> safe_integer (arg_quantity arg) \<and>
      safe_integer (quantity_or_0 itemInCart + arg_quantity arg) \<and>
      renderedCart s = Some cart \<and>
      findItemIdInCart U cart (arg_id arg) (arg_options arg) = Some itemInCart \<longrightarrow>
      calls (net (snd (triggerAddToCart U L wixClient arg s))) =
        calls (net s) @
          [UpdateCurrentCartLineItemQuantity
             [(id_or_undefined (lineitem_id itemInCart),
               quantity_or_0 itemInCart + arg_quantity arg)]])
   \<and> (renderedCart s = None \<or>
      (\<exists>c. renderedCart s = Some c \<and> findItemIdInCart U c (arg_id arg) (arg_options arg) = None) \<longrightarrow>
      calls (net (snd (triggerAddToCart U L wixClient arg s))) =
        calls (net s) @
          [AddToCurrentCart
             [\<lparr>input_catalogReference =
                 \<lparr>catalogItemId = arg_id arg, appId = WIX_STORES_APP_ID L,
                  reference_options = arg_options arg\<rparr>,
               input_quantity = arg_quantity arg\<rparr>]])
   \<and> ((renderedCart s = None \<or>
       (\<exists>c. renderedCart s = Some c \<and> findItemIdInCart U c i opts = None)) \<and>
      currentCart_addToCurrentCart wixClient
        [\<lparr>input_catalogReference =
            \<lparr>catalogItemId = i, appId = WIX_STORES_APP_ID L, reference_options = opts\<rparr>,
          input_quantity = q1\<rparr>] (platform (net s)) = (Inr (Some c1), w1) \<and>
      findItemIdInCart U c1 i opts = Some line \<longrightarrow>
      calls (net (add_rendered U L wixClient i q2 opts (add_rendered U L wixClient i q1 opts s))) =
        calls (net s) @
          [AddToCurrentCart
             [\<lparr>input_catalogReference =
                 \<lparr>catalogItemId = i, appId = WIX_STORES_APP_ID L, reference_options = opts\<rparr>,
               input_quantity = q1\<rparr>],
           UpdateCurrentCartLineItemQuantity
             [(id_or_undefined (lineitem_id line), number_plus L (quantity_or_0 line) q2)]])
   \<and> ((\<forall>a b. safe_integer a \<and> safe_integer b \<and> safe_integer (a + b) \<longrightarrow>
             number_plus L a b = a + b) \<and>
      safe_integer q1 \<and> safe_integer q2 \<and> safe_integer (q1 + q2) \<and>
      store_faults (platform (net r)) = [] \<and>
      (renderedCart r = None \<or>
       (\<exists>c. renderedCart r = Some c \<and> findItemIdInCart_spec c i opts = None)) \<and>
      findItemIdInCart_spec \<lparr>lineItems = store_cart (platform (net r))\<rparr> i opts = None \<and>
      (\<forall>li \<in> set (store_cart (platform (net r))).
         lineitem_id li \<noteq> Some (fresh_id (store_next (platform (net r))))) \<longrightarrow>
      (let add = add_rendered (U\<lparr>findItemIdInCart := findItemIdInCart_spec\<rparr>) L ref_client i;
           r2 = add q2 opts (add q1 opts r);
           one = added_line L (store_next (platform (net r))) i (q1 + q2) opts;
           two = added_line L (Suc (store_next (platform (net r)))) i q3 opts'
       in cartData r2 = Some \<lparr>lineItems = store_cart (platform (net r)) @ [one]\<rparr>
        \<and> store_cart (platform (net r2)) = store_cart (platform (net r)) @ [one]
        \<and> (\<not> same_options opts opts' \<and>
           findItemIdInCart_spec \<lparr>lineItems = store_cart (platform (net r))\<rparr> i opts' = None \<longrightarrow>
           cartData (add q3 opts' r2) =
             Some \<lparr>lineItems = store_cart (platform (net r)) @ [one, two]\<rparr>
         \<and> store_cart (platform (net (add q3 opts' r2))) =
             store_cart (platform (net r)) @ [one, two]
         \<and> lineitem_id one \<noteq> lineitem_id two)))
   \<and> quantity_or_0 (li\<lparr>lineitem_quantity := Some q\<rparr>) = q
   \<and> quantity_or_0 (li\<lparr>lineitem_quantity := None\<rparr>) = 0
   \<and> id_or_undefined (Some (ch # chs)) = Some (ch # chs)"
proof -
  have upd: "renderedCart s = Some cart \<and>
    findItemIdInCart U cart (arg_id arg) (arg_options arg) = Some itemInCart \<longrightarrow>
      calls (net (snd (triggerAddToCart U L wixClient arg s))) =
        calls (net s) @
          [UpdateCurrentCartLineItemQuantity
             [(id_or_undefined (lineitem_id itemInCart),
               number_plus L (quantity_or_0 itemInCart) (arg_quantity arg))]]"
    by (simp add: triggerAddToCart_def useAddToCart_fetcher_def useSWRMutation_net
        await_body_or_throw_state updateCartItemQuantity_calls)
  have exact: "(\<forall>a b. safe_integer a \<and> safe_integer b \<and> safe_integer (a + b) \<longrightarrow>
             number_plus L a b = a + b) \<and>
      safe_integer (quantity_or_0 itemInCart) \<and> safe_integer (arg_quantity arg) \<and>
      safe_integer (quantity_or_0 itemInCart + arg_quantity arg) \<and>
      renderedCart s = Some cart \<and>
      findItemIdInCart U cart (arg_id arg) (arg_options arg) = Some itemInCart \<longrightarrow>
      calls (net (snd (triggerAddToCart U L wixClient arg s))) =
        calls (net s) @
          [UpdateCurrentCartLineItemQuantity
             [(id_or_undefined (lineitem_id itemInCart),
               quantity_or_0 itemInCart + arg_quantity arg)]]"
    using upd by auto
  have ins: "renderedCart s = None \<or>
      (\<exists>c. renderedCart s = Some c \<and> findItemIdInCart U c (arg_id arg) (arg_options arg) = None) \<longrightarrow>
      calls (net (snd (triggerAddToCart U L wixClient arg s))) =
        calls (net s) @
          [AddToCurrentCart
             [\<lparr>input_catalogReference =
                 \<lparr>catalogItemId = arg_id arg, appId = WIX_STORES_APP_ID L,
                  reference_options = arg_options arg\<rparr>,
               input_quantity = arg_quantity arg\<rparr>]]"
    by (auto simp: triggerAddToCart_def useAddToCart_fetcher_def useSWRMutation_net
        await_body_or_throw_state addToCart_calls)
  have twice: "(renderedCart s = None \<or>
       (\<exists>c. renderedCart s = Some c \<and> findItemIdInCart U c i opts = None)) \<and>
      currentCart_addToCurrentCart wixClient
        [\<lparr>input_catalogReference =
            \<lparr>catalogItemId = i, appId = WIX_STORES_APP_ID L, reference_options = opts\<rparr>,
          input_quantity = q1\<rparr>] (platform (net s)) = (Inr (Some c1), w1) \<and>
      findItemIdInCart U c1 i opts = Some line \<longrightarrow>
      calls (net (add_rendered U L wixClient i q2 opts (add_rendered U L wixClient i q1 opts s))) =
        calls (net s) @
          [AddToCurrentCart
             [\<lparr>input_catalogReference =
                 \<lparr>catalogItemId = i, appId = WIX_STORES_APP_ID L, reference_options = opts\<rparr>,
               input_quantity = q1\<rparr>],
           UpdateCurrentCartLineItemQuantity
             [(id_or_undefined (lineitem_id line), number_plus L (quantity_or_0 line) q2)]]"
    using twice_rendered_calls[of s U i opts wixClient L q1 c1 w1 line q2]
    by (auto simp: add_rendered_def useCart_addToCart_def render_def)
  have reference: "(\<forall>a b. safe_integer a \<and> safe_integer b \<and> safe_integer (a + b) \<longrightarrow>
             number_plus L a b = a + b) \<and>
      safe_integer q1 \<and> safe_integer q2 \<and> safe_integer (q1 + q2) \<and>
      store_faults (platform (net r)) = [] \<and>
      (renderedCart r = None \<or>
       (\<exists>c. renderedCart r = Some c \<and> findItemIdInCart_spec c i opts = None)) \<and>
      findItemIdInCart_spec \<lparr>lineItems = store_cart (platform (net r))\<rparr> i opts = None \<and>
      (\<forall>li \<in> set (store_cart (platform (net r))).
         lineitem_id li \<noteq> Some (fresh_id (store_next (platform (net r))))) \<longrightarrow>
      (let add = add_rendered (U\<lparr>findItemIdInCart := findItemIdInCart_spec\<rparr>) L ref_client i;
           r2 = add q2 opts (add q1 opts r);
           one = added_line L (store_next (platform (net r))) i (q1 + q2) opts;
           two = added_line L (Suc (store_next (platform (net r)))) i q3 opts'
       in cartData r2 = Some \<lparr>lineItems = store_cart (platform (net r)) @ [one]\<rparr>
        \<and> store_cart (platform (net r2)) = store_cart (platform (net r)) @ [one]
        \<and> (\<not> same_options opts opts' \<and>
           findItemIdInCart_spec \<lparr>lineItems = store_cart (platform (net r))\<rparr> i opts' = None \<longrightarrow>
           cartData (add q3 opts' r2) =
             Some \<lparr>lineItems = store_cart (platform (net r)) @ [one, two]\<rparr>
         \<and> store_cart (platform (net (add q3 opts' r2))) =
             store_cart (platform (net r)) @ [one, two]
         \<and> lineitem_id one \<noteq> lineitem_id two))"
  proof (intro impI, elim conjE)
    assume law: "\<forall>a b. safe_integer a \<and> safe_integer b \<and> safe_integer (a + b) \<longrightarrow>
             number_plus L a b = a + b"
      and safe: "safe_integer q1" "safe_integer q2" "safe_integer (q1 + q2)"
      and faults: "store_faults (platform (net r)) = []"
      and stale: "renderedCart r = None \<or>
       (\<exists>c. renderedCart r = Some c \<and> findItemIdInCart_spec c i opts = None)"
      and absent: "findItemIdInCart_spec \<lparr>lineItems = store_cart (platform (net r))\<rparr> i opts = None"
      and fresh: "\<forall>li \<in> set (store_cart (platform (net r))).
         lineitem_id li \<noteq> Some (fresh_id (store_next (platform (net r))))"
    note two = reference_twice[OF law safe faults stale absent fresh, of U]
    note three = reference_thrice[OF law safe faults stale absent fresh, of opts' U q3]
    have ids: "lineitem_id (added_line L (store_next (platform (net r))) i (q1 + q2) opts) \<noteq>
            lineitem_id (added_line L (Suc (store_next (platform (net r)))) i q3 opts')"
      by (simp add: added_line_def fresh_id_inject)
    show "let add = add_rendered (U\<lparr>findItemIdInCart := findItemIdInCart_spec\<rparr>) L ref_client i;
           r2 = add q2 opts (add q1 opts r);
           one = added_line L (store_next (platform (net r))) i (q1 + q2) opts;
           two = added_line L (Suc (store_next (platform (net r)))) i q3 opts'
       in cartData r2 = Some \<lparr>lineItems = store_cart (platform (net r)) @ [one]\<rparr>
        \<and> store_cart (platform (net r2)) = store_cart (platform (net r)) @ [one]
        \<and> (\<not> same_options opts opts' \<and>
           findItemIdInCart_spec \<lparr>lineItems = store_cart (platform (net r))\<rparr> i opts' = None \<longrightarrow>
           cartData (add q3 opts' r2) =
             Some \<lparr>lineItems = store_cart (platform (net r)) @ [one, two]\<rparr>
         \<and> store_cart (platform (net (add q3 opts' r2))) =
             store_cart (platform (net r)) @ [one, two]
         \<and> lineitem_id one \<noteq> lineitem_id two)"
      unfolding Let_def
      using three ids by (simp add: two)
  qed
  show ?thesis
    by (intro conjI upd exact ins twice reference)
      (simp_all add: quantity_or_0_def id_or_undefined_def)
qed

text \<open>
  Claim C1, as stated, fails when the second add starts before the answer to the first
  has been rendered: the fetcher still sees the old cart, inserts again, and the cart
  holds two lines of the same combination.
\<close>

theorem addToCart_twice_before_render:
  "cartData (snd (useCart_addToCart scenario_utils plain_lib ref_client (Some ''P'') 2
       (Some (Options [(''Size'', ''S'')]))
       (snd (useCart_addToCart scenario_utils plain_lib ref_client (Some ''P'') 1
          (Some (Options [(''Size'', ''S'')])) empty_cart_loaded)))) =
   Some \<lparr>lineItems = [size_line 0 1 ''S'', size_line 1 2 ''S'']\<rparr>"
  by (simp add: useCart_addToCart_def triggerAddToCart_def useAddToCart_fetcher_def
      useSWRMutation_def empty_cart_loaded_def scenario_utils_def findItemIdInCart_spec_def
      addToCart_def body_or_throw_def async_defs ref_defs size_line_def fresh_id_def)

text \<open>
  Instances of C1: a rendered cart that holds size S, to which S and then M is added; and
  the empty cart, to which S is added twice and then M, each answer rendered.
\<close>

theorem addToCart_update_or_insert_witness:
  "safe_integer 1 \<and> safe_integer 2 \<and> safe_integer (1 + 2)
   \<and> findItemIdInCart scenario_utils \<lparr>lineItems = [size_line 0 1 ''S'']\<rparr> (Some ''P'')
       (Some (Options [(''Size'', ''S'')])) = Some (size_line 0 1 ''S'')
   \<and> calls (net (snd (triggerAddToCart scenario_utils plain_lib ref_client
        \<lparr>arg_id = Some ''P'', arg_quantity = 2, arg_options = Some (Options [(''Size'', ''S'')])\<rparr>
        (empty_cart_loaded\<lparr>renderedCart := Some \<lparr>lineItems = [size_line 0 1 ''S'']\<rparr>\<rparr>)))) =
       [UpdateCurrentCartLineItemQuantity [(Some (fresh_id 0), 3)]]
   \<and> findItemIdInCart scenario_utils \<lparr>lineItems = [size_line 0 1 ''S'']\<rparr> (Some ''P'')
       (Some (Options [(''Size'', ''M'')])) = None
   \<and> calls (net (snd (triggerAddToCart scenario_utils plain_lib ref_client
        \<lparr>arg_id = Some ''P'', arg_quantity = 1, arg_options = Some (Options [(''Size'', ''M'')])\<rparr>
        (empty_cart_loaded\<lparr>renderedCart := Some \<lparr>lineItems = [size_line 0 1 ''S'']\<rparr>\<rparr>)))) =
       [AddToCurrentCart
          [\<lparr>input_catalogReference =
              \<lparr>catalogItemId = Some ''P'', appId = ''stores-app'',
               reference_options = Some (Options [(''Size'', ''M'')])\<rparr>,
            input_quantity = 1\<rparr>]]
   \<and> store_faults (platform (net empty_cart_loaded)) = []
   \<and> findItemIdInCart_spec \<lparr>lineItems = store_cart (platform (net empty_cart_loaded))\<rparr>
       (Some ''P'') (Some (Options [(''Size'', ''S'')])) = None
   \<and> cartData (add_rendered scenario_utils plain_lib ref_client (Some ''P'') 2
        (Some (Options [(''Size'', ''S'')]))
        (add_rendered scenario_utils plain_lib ref_client (Some ''P'') 1
           (Some (Options [(''Size'', ''S'')])) empty_cart_loaded)) =
       Some \<lparr>lineItems = [size_line 0 3 ''S'']\<rparr>
   \<and> cartData (add_rendered scenario_utils plain_lib ref_client (Some ''P'') 1
        (Some (Options [(''Size'', ''M'')]))
        (add_rendered scenario_utils plain_lib ref_client (Some ''P'') 2
           (Some (Options [(''Size'', ''S'')]))
           (add_rendered scenario_utils plain_lib ref_client (Some ''P'') 1
              (Some (Options [(''Size'', ''S'')])) empty_cart_loaded))) =
       Some \<lparr>lineItems = [size_line 0 3 ''S'', size_line 1 1 ''M'']\<rparr>"
proof -
  have law: "\<forall>a b. safe_integer a \<and> safe_integer b \<and> safe_integer (a + b) \<longrightarrow>
               number_plus plain_lib a b = a + b"
    by (simp add: plain_lib_def)
  have safe: "safe_integer 1" "safe_integer 2" "safe_integer (1 + 2)"
    by (simp_all add: safe_integer_def)
  have a: "findItemIdInCart scenario_utils \<lparr>lineItems = [size_line 0 1 ''S'']\<rparr> (Some ''P'')
       (Some (Options [(''Size'', ''S'')])) = Some (size_line 0 1 ''S'')"
    by (simp add: scenario_utils_def findItemIdInCart_spec_def size_line_def)
  have b: "findItemIdInCart scenario_utils \<lparr>lineItems = [size_line 0 1 ''S'']\<rparr> (Some ''P'')
       (Some (Options [(''Size'', ''M'')])) = None"
    by (simp add: scenario_utils_def findItemIdInCart_spec_def size_line_def)
  have c: "store_faults (platform (net empty_cart_loaded)) = []"
    "store_cart (platform (net empty_cart_loaded)) = []"
    "store_next (platform (net empty_cart_loaded)) = 0"
    "renderedCart empty_cart_loaded = Some \<lparr>lineItems = []\<rparr>"
    by (simp_all add: empty_cart_loaded_def online_def empty_store_def)
  have d: "findItemIdInCart_spec \<lparr>lineItems = []\<rparr> (Some ''P'') o' = None" for o'
    by (simp add: findItemIdInCart_spec_def)
  have e: "scenario_utils\<lparr>findItemIdInCart := findItemIdInCart_spec\<rparr> = scenario_utils"
    by (simp add: scenario_utils_def)
  have f: "added_line plain_lib n (Some ''P'') q (Some (Options [(''Size'', sz)])) = size_line n q sz"
    for n q sz
    by (simp add: added_line_def size_line_def plain_lib_def)
  have g: "\<not> same_options (Some (Options [(''Size'', ''S'')])) (Some (Options [(''Size'', ''M'')]))"
    by simp
  show ?thesis
    using law safe a b c d g
      addToCart_update_or_insert[where U = scenario_utils and L = plain_lib
        and wixClient = ref_client
        and s = "empty_cart_loaded\<lparr>renderedCart := Some \<lparr>lineItems = [size_line 0 1 ''S'']\<rparr>\<rparr>"
        and cart = "\<lparr>lineItems = [size_line 0 1 ''S'']\<rparr>"
        and itemInCart = "size_line 0 1 ''S''"
        and arg = "\<lparr>arg_id = Some ''P'', arg_quantity = 2,
                    arg_options = Some (Options [(''Size'', ''S'')])\<rparr>"
        and r = empty_cart_loaded and i = "Some ''P''" and ?q1.0 = 1 and ?q2.0 = 2 and ?q3.0 = 1
        and opts = "Some (Options [(''Size'', ''S'')])"
        and opts' = "Some (Options [(''Size'', ''M'')])"]
      addToCart_update_or_insert[where U = scenario_utils and L = plain_lib
        and wixClient = ref_client
        and s = "empty_cart_loaded\<lparr>renderedCart := Some \<lparr>lineItems = [size_line 0 1 ''S'']\<rparr>\<rparr>"
        and arg = "\<lparr>arg_id = Some ''P'', arg_quantity = 1,
                    arg_options = Some (Options [(''Size'', ''M'')])\<rparr>"]
    by (simp add: e f Let_def)
      (simp add: empty_cart_loaded_def online_def size_line_def quantity_or_0_def
        id_or_undefined_def fresh_id_def plain_lib_def)
qed

section \<open>Properties of the product page\<close>

text \<open>
  Claim C7. \<^verbatim>\<open>handleOptionChange\<close> sets the quantity to 1, whatever it was, and the entry
  of the option to the new choice; the entry of every other option, and whether it has
  one, stays as it was, as does the rest of the state.
\<close>

theorem handleOptionChange_resets_quantity:
  "quantity (handleOptionChange optionName newChoice s) = 1
   \<and> map_of (selectedChoices (handleOptionChange optionName newChoice s)) optionName =
       Some (Some newChoice)
   \<and> (k \<noteq> optionName \<longrightarrow>
        map_of (selectedChoices (handleOptionChange optionName newChoice s)) k =
        map_of (selectedChoices s) k)
   \<and> (k \<noteq> optionName \<longrightarrow>
        (k \<in> fst ` set (selectedChoices (handleOptionChange optionName newChoice s))) =
        (k \<in> fst ` set (selectedChoices s)))
   \<and> app (handleOptionChange optionName newChoice s) = app s
   \<and> addToCartAttempted (handleOptionChange optionName newChoice s) = addToCartAttempted s"
  by (simp add: handleOptionChange_def update_conv' dom_update)

text \<open>An instance of C7: the size is changed while the quantity is 4.\<close>

theorem handleOptionChange_resets_quantity_witness:
  "''Colour'' \<noteq> ''Size''
   \<and> quantity (handleOptionChange ''Size'' (choice ''M'')
        ((useProductDetails size_and_colour empty_cart_loaded False)\<lparr>quantity := 4\<rparr>)) = 1
   \<and> map_of (selectedChoices (handleOptionChange ''Size'' (choice ''M'')
        ((useProductDetails size_and_colour empty_cart_loaded False)\<lparr>quantity := 4\<rparr>))) ''Size'' =
       Some (Some (choice ''M''))
   \<and> map_of (selectedChoices (handleOptionChange ''Size'' (choice ''M'')
        ((useProductDetails size_and_colour empty_cart_loaded False)\<lparr>quantity := 4\<rparr>))) ''Colour'' =
       Some (Some (choice ''Red''))"
proof -
  have sel: "selectedChoices (useProductDetails size_and_colour empty_cart_loaded False) =
      [(''Size'', None), (''Colour'', Some (choice ''Red''))]"
    by (simp add: useProductDetails_def size_and_colour_def with_options_def
        getInitialSelectedChoices_def assign_initial_def truthy_name_def single_choice_def)
  show ?thesis
    using handleOptionChange_resets_quantity[where optionName = "''Size''"
        and newChoice = "choice ''M''" and k = "''Colour''"
        and s = "(useProductDetails size_and_colour empty_cart_loaded False)\<lparr>quantity := 4\<rparr>"]
    by (simp add: sel)
qed

lemma entry_name_truthy:
  "entry_name opt = (case truthy_name opt of
     None \<Rightarrow> None | Some n \<Rightarrow> if n = ''__proto__'' then None else Some n)"
  by (simp add: entry_name_def truthy_name_def split: option.splits)

lemma assign_initial_entry:
  "assign_initial acc x = (case entry_name x of
     None \<Rightarrow> acc | Some n \<Rightarrow> AList.update n (single_choice x) acc)"
  by (simp add: assign_initial_def entry_name_truthy split: option.splits)

lemma option_names_Cons:
  "option_names (x # xs) =
     (case entry_name x of None \<Rightarrow> option_names xs | Some n \<Rightarrow> n # option_names xs)"
  by (simp add: option_names_def map_filter_simps split: option.splits)

lemma option_names_Nil: "option_names [] = []"
  by (simp add: option_names_def map_filter_simps)

lemma last_named_snoc:
  "last_named n (xs @ [x]) = (if entry_name x = Some n then Some x else last_named n xs)"
  by (simp add: last_named_def)

lemma initial_last_named:
  "map_of (foldl assign_initial acc os) n =
     (case last_named n os of None \<Rightarrow> map_of acc n | Some opt \<Rightarrow> Some (single_choice opt))"
proof (induction os rule: rev_induct)
  case Nil
  show ?case by (simp add: last_named_def)
next
  case (snoc x xs)
  show ?case
  proof (cases "entry_name x")
    case None
    then show ?thesis
      using snoc by (simp add: assign_initial_entry last_named_snoc)
  next
    case (Some k)
    then show ?thesis
      using snoc by (simp add: assign_initial_entry last_named_snoc update_conv')
  qed
qed

lemma last_named_distinct:
  "distinct (option_names os) \<Longrightarrow> opt \<in> set os \<Longrightarrow> entry_name opt = Some n \<Longrightarrow>
   last_named n os = Some opt"
proof (induction os rule: rev_induct)
  case Nil
  then show ?case by simp
next
  case (snoc x xs)
  have names: "option_names (xs @ [x]) =
      option_names xs @ (case entry_name x of None \<Rightarrow> [] | Some k \<Rightarrow> [k])"
    by (simp add: option_names_def map_filter_def split: option.splits)
  show ?case
  proof (cases "entry_name x = Some n")
    case True
    have "opt = x"
    proof (rule ccontr)
      assume "opt \<noteq> x"
      with snoc.prems(2) have "opt \<in> set xs" by simp
      then have "n \<in> set (option_names xs)"
        using snoc.prems(3) by (force simp: option_names_def map_filter_def)
      with snoc.prems(1) True show False by (simp add: names)
    qed
    with True show ?thesis by (simp add: last_named_snoc)
  next
    case False
    with snoc.prems have "opt \<in> set xs" by auto
    moreover from snoc.prems(1) have "distinct (option_names xs)" by (simp add: names)
    ultimately show ?thesis
      using snoc.IH snoc.prems(3) False by (simp add: last_named_snoc)
  qed
qed

lemma set_update_subset: "set (AList.update k v al) \<subseteq> insert (k, v) (set al)"
  by (induction al) auto

lemma initial_values:
  "snd ` set (foldl assign_initial acc os) \<subseteq> snd ` set acc \<union> single_choice ` set os"
proof (induction os arbitrary: acc)
  case Nil
  then show ?case by simp
next
  case (Cons x xs)
  have "snd ` set (assign_initial acc x) \<subseteq> snd ` set acc \<union> {single_choice x}"
  proof (cases "entry_name x")
    case None
    then show ?thesis by (auto simp: assign_initial_entry)
  next
    case (Some k)
    then have "set (assign_initial acc x) \<subseteq> insert (k, single_choice x) (set acc)"
      using set_update_subset[of k "single_choice x" acc] by (simp add: assign_initial_entry)
    then show ?thesis by force
  qed
  with Cons.IH[of "assign_initial acc x"] show ?case by auto
qed

lemma initial_keys:
  "fst ` set (foldl assign_initial acc os) = fst ` set acc \<union> set (option_names os)"
proof (induction os arbitrary: acc)
  case Nil
  then show ?case by (simp add: option_names_Nil)
next
  case (Cons x xs)
  then show ?case
    by (cases "entry_name x") (auto simp: option_names_Cons assign_initial_entry dom_update)
qed

lemma entry_name_SomeD: "entry_name opt = Some n \<Longrightarrow> n \<noteq> [] \<and> n \<noteq> ''__proto__''"
  unfolding entry_name_def by (cases "option_name opt") (simp_all split: if_splits)

lemma option_names_origin:
  "n \<in> set (option_names os) \<Longrightarrow> \<exists>opt \<in> set os. entry_name opt = Some n"
proof (induction os)
  case Nil
  then show ?case by (simp add: option_names_Nil)
next
  case (Cons x xs)
  then show ?case
    by (cases "entry_name x") (auto simp: option_names_Cons)
qed

lemma option_names_entry: "n \<in> set (option_names os) \<Longrightarrow> n \<noteq> [] \<and> n \<noteq> ''__proto__''"
  using option_names_origin entry_name_SomeD by blast

text \<open>
  Claim C8, as amended. The initial selection has an entry for exactly the names of the
  options that have a name other than the empty one and \<^verbatim>\<open>__proto__\<close>, and the entry of a
  name is decided by the last option of that name: it is that option's choice when the
  option has exactly one, and undefined otherwise. So for a product whose named options
  have pairwise different names, a named option with exactly one choice is initialised to
  that choice and a named option with no choice or several is initialised as unselected.
  For every product whose options each have exactly one choice, no entry is undefined.
\<close>

theorem getInitialSelectedChoices_distinct_names:
  "(productOptions product = Some os \<longrightarrow>
      map_of (getInitialSelectedChoices product) n =
        (case last_named n os of None \<Rightarrow> None | Some opt \<Rightarrow> Some (single_choice opt)))
   \<and> (productOptions product = Some os \<and> distinct (option_names os) \<and>
      opt \<in> set os \<and> option_name opt = Some n \<and> n \<noteq> [] \<and> n \<noteq> ''__proto__'' \<and>
      choices opt = Some [c] \<longrightarrow>
      map_of (getInitialSelectedChoices product) n = Some (Some c))
   \<and> (productOptions product = Some os \<and> distinct (option_names os) \<and>
      opt \<in> set os \<and> option_name opt = Some n \<and> n \<noteq> [] \<and> n \<noteq> ''__proto__'' \<and>
      (choices opt = None \<or> (\<exists>cs. choices opt = Some cs \<and> length cs \<noteq> 1)) \<longrightarrow>
      map_of (getInitialSelectedChoices product) n = Some None)
   \<and> (productOptions product = Some os \<and> (\<forall>x \<in> set os. \<exists>c. choices x = Some [c]) \<longrightarrow>
      None \<notin> snd ` set (getInitialSelectedChoices product))
   \<and> (productOptions product = Some os \<longrightarrow>
      fst ` set (getInitialSelectedChoices product) = set (option_names os))
   \<and> [] \<notin> fst ` set (getInitialSelectedChoices product)
   \<and> ''__proto__'' \<notin> fst ` set (getInitialSelectedChoices product)
   \<and> (productOptions product = None \<longrightarrow> getInitialSelectedChoices product = [])"
proof (intro conjI impI; (elim conjE)?)
  assume "productOptions product = Some os"
  then show "map_of (getInitialSelectedChoices product) n =
        (case last_named n os of None \<Rightarrow> None | Some opt \<Rightarrow> Some (single_choice opt))"
    using initial_last_named[of "[]" os n]
    by (simp add: getInitialSelectedChoices_def split: option.splits)
next
  assume a: "productOptions product = Some os" "distinct (option_names os)" "opt \<in> set os"
    "option_name opt = Some n" "n \<noteq> []" "n \<noteq> ''__proto__''" "choices opt = Some [c]"
  then have "entry_name opt = Some n" "single_choice opt = Some c"
    by (simp_all add: entry_name_def single_choice_def)
  with a show "map_of (getInitialSelectedChoices product) n = Some (Some c)"
    using initial_last_named[of "[]" os n] last_named_distinct[of os opt n]
    by (simp add: getInitialSelectedChoices_def)
next
  assume a: "productOptions product = Some os" "distinct (option_names os)" "opt \<in> set os"
    "option_name opt = Some n" "n \<noteq> []" "n \<noteq> ''__proto__''"
    "choices opt = None \<or> (\<exists>cs. choices opt = Some cs \<and> length cs \<noteq> 1)"
  then have "entry_name opt = Some n"
    by (simp add: entry_name_def)
  moreover from a(7) have "single_choice opt = None"
    by (auto simp: single_choice_def split: option.splits list.splits)
  ultimately show "map_of (getInitialSelectedChoices product) n = Some None"
    using a initial_last_named[of "[]" os n] last_named_distinct[of os opt n]
    by (simp add: getInitialSelectedChoices_def)
next
  assume a: "productOptions product = Some os" "\<forall>x \<in> set os. \<exists>c. choices x = Some [c]"
  have "None \<notin> single_choice ` set os"
  proof
    assume "None \<in> single_choice ` set os"
    then obtain x where "x \<in> set os" "single_choice x = None" by force
    with a(2) show False by (auto simp: single_choice_def)
  qed
  then show "None \<notin> snd ` set (getInitialSelectedChoices product)"
    using a(1) initial_values[of "[]" os] by (auto simp: getInitialSelectedChoices_def)
next
  assume "productOptions product = Some os"
  then show "fst ` set (getInitialSelectedChoices product) = set (option_names os)"
    using initial_keys[of "[]" os] by (simp add: getInitialSelectedChoices_def)
next
  show "[] \<notin> fst ` set (getInitialSelectedChoices product)"
    using initial_keys[of "[]"] option_names_entry[of "[]"]
    by (auto simp: getInitialSelectedChoices_def split: option.splits)
next
  show "''__proto__'' \<notin> fst ` set (getInitialSelectedChoices product)"
    using initial_keys[of "[]"] option_names_entry[of "''__proto__''"]
    by (auto simp: getInitialSelectedChoices_def split: option.splits)
next
  assume "productOptions product = None"
  then show "getInitialSelectedChoices product = []"
    by (simp add: getInitialSelectedChoices_def)
qed

text \<open>
  Claim C8, as stated, fails for two options of one name: the later one decides the entry,
  so the option with two choices is initialised as selected.
\<close>

theorem getInitialSelectedChoices_same_name:
  "productOptions two_sizes =
     Some [\<lparr>option_name = Some ''Size'', choices = Some [choice ''S'', choice ''M'']\<rparr>,
           \<lparr>option_name = Some ''Size'', choices = Some [choice ''L'']\<rparr>]
   \<and> getInitialSelectedChoices two_sizes = [(''Size'', Some (choice ''L''))]"
  by (simp add: two_sizes_def with_options_def getInitialSelectedChoices_def assign_initial_def
      truthy_name_def single_choice_def)

text \<open>
  Instances of C8: one option with two choices and one with a single choice; two options
  of one name; an option named \<^verbatim>\<open>__proto__\<close>.
\<close>

theorem getInitialSelectedChoices_distinct_names_witness:
  "productOptions size_and_colour =
     Some [\<lparr>option_name = Some ''Size'', choices = Some [choice ''S'', choice ''M'']\<rparr>,
           \<lparr>option_name = Some ''Colour'', choices = Some [choice ''Red'']\<rparr>]
   \<and> distinct (option_names
        [\<lparr>option_name = Some ''Size'', choices = Some [choice ''S'', choice ''M'']\<rparr>,
         \<lparr>option_name = Some ''Colour'', choices = Some [choice ''Red'']\<rparr>])
   \<and> ''Colour'' \<noteq> ''__proto__'' \<and> ''Size'' \<noteq> ''__proto__''
   \<and> map_of (getInitialSelectedChoices size_and_colour) ''Colour'' = Some (Some (choice ''Red''))
   \<and> map_of (getInitialSelectedChoices size_and_colour) ''Size'' = Some None
   \<and> fst ` set (getInitialSelectedChoices size_and_colour) = {''Size'', ''Colour''}
   \<and> None \<notin> snd ` set (getInitialSelectedChoices
        (with_options [\<lparr>option_name = Some ''Colour'', choices = Some [choice ''Red'']\<rparr>]))
   \<and> last_named ''Size''
        [\<lparr>option_name = Some ''Size'', choices = Some [choice ''S'', choice ''M'']\<rparr>,
         \<lparr>option_name = Some ''Size'', choices = Some [choice ''L'']\<rparr>] =
       Some \<lparr>option_name = Some ''Size'', choices = Some [choice ''L'']\<rparr>
   \<and> map_of (getInitialSelectedChoices two_sizes) ''Size'' = Some (Some (choice ''L''))
   \<and> fst ` set (getInitialSelectedChoices proto_option) = {}"
  using getInitialSelectedChoices_distinct_names[where product = size_and_colour
      and os = "[\<lparr>option_name = Some ''Size'', choices = Some [choice ''S'', choice ''M'']\<rparr>,
                 \<lparr>option_name = Some ''Colour'', choices = Some [choice ''Red'']\<rparr>]"
      and opt = "\<lparr>option_name = Some ''Colour'', choices = Some [choice ''Red'']\<rparr>"
      and n = "''Colour''" and c = "choice ''Red''"]
    getInitialSelectedChoices_distinct_names[where product = size_and_colour
      and os = "[\<lparr>option_name = Some ''Size'', choices = Some [choice ''S'', choice ''M'']\<rparr>,
                 \<lparr>option_name = Some ''Colour'', choices = Some [choice ''Red'']\<rparr>]"
      and opt = "\<lparr>option_name = Some ''Size'', choices = Some [choice ''S'', choice ''M'']\<rparr>"
      and n = "''Size''"]
    getInitialSelectedChoices_distinct_names[where
      product = "with_options [\<lparr>option_name = Some ''Colour'', choices = Some [choice ''Red'']\<rparr>]"
      and os = "[\<lparr>option_name = Some ''Colour'', choices = Some [choice ''Red'']\<rparr>]"]
    getInitialSelectedChoices_distinct_names[where product = two_sizes
      and os = "[\<lparr>option_name = Some ''Size'', choices = Some [choice ''S'', choice ''M'']\<rparr>,
                 \<lparr>option_name = Some ''Size'', choices = Some [choice ''L'']\<rparr>]"
      and n = "''Size''"]
    getInitialSelectedChoices_distinct_names[where product = proto_option
      and os = "[\<lparr>option_name = Some ''__proto__'',
                  choices = Some [choice ''S'', choice ''M'']\<rparr>]"]
  by (simp add: size_and_colour_def two_sizes_def proto_option_def with_options_def
      option_names_def map_filter_simps entry_name_def last_named_def single_choice_def
      insert_commute)


lemma useSWRMutation_cases:
  "(\<exists>d n. useSWRMutation f s = (Inr d, s\<lparr>net := n, cartData := Some d\<rparr>)) \<or>
   (\<exists>e n. useSWRMutation f s = (Inl e, s\<lparr>net := n\<rparr>))"
  by (auto simp: useSWRMutation_def split: prod.splits sum.splits)






end
